theory Spec2Isabelle
  imports Complex_Main "HOL-Library.AList"
begin

section \<open>Python values, dictionaries and exceptions\<close>

text \<open>
  The script \<^verbatim>\<open>mark.py\<close> works on dictionaries (the context, the students), on the
  canvas of the drawing library and on the page objects of the PDF library. A dictionary
  is an association list in insertion order; \<^verbatim>\<open>d.update({k: v})\<close> is
  \<^const>\<open>AList.update\<close>, which replaces the value of a present key where it stands and
  appends an absent key, as a Python dictionary does.
\<close>

datatype pyval = PInt int | PStr string | PDict "(string \<times> pyval) list"

type_synonym dict = "(string \<times> pyval) list"

datatype error = KeyError string | IndexError | TypeError | NotImplementedError

definition bind_result :: "error + 'a \<Rightarrow> ('a \<Rightarrow> error + 'b) \<Rightarrow> error + 'b" where
  "bind_result r f = (case r of Inl e \<Rightarrow> Inl e | Inr v \<Rightarrow> f v)"

text \<open>\<^verbatim>\<open>d[k]\<close> on a dictionary raises KeyError for an absent key.\<close>

definition getitem :: "dict \<Rightarrow> string \<Rightarrow> error + pyval" where
  "getitem d k = (case map_of d k of None \<Rightarrow> Inl (KeyError k) | Some v \<Rightarrow> Inr v)"

text \<open>\<^verbatim>\<open>v[k]\<close> with a string key on any value: only a dictionary can be subscripted so.\<close>

fun subscript :: "pyval \<Rightarrow> string \<Rightarrow> error + pyval" where
  "subscript (PDict d) k = getitem d k"
| "subscript (PInt n) k = Inl TypeError"
| "subscript (PStr s) k = Inl TypeError"

text \<open>\<^verbatim>\<open>xs[i]\<close> on a list with a non-negative index raises IndexError out of range.\<close>

definition list_getitem :: "'a list \<Rightarrow> nat \<Rightarrow> error + 'a" where
  "list_getitem xs i = (if i < length xs then Inr (xs ! i) else Inl IndexError)"

text \<open>
  The result of \<^verbatim>\<open>template.format(args)\<close> is kept as the template with its arguments:
  the conversion of a value to text is Python's own.
\<close>

datatype pytext = Value pyval | Format string "pyval list"

section \<open>The drawing library: units, colours, canvas\<close>

text \<open>
  Lengths are Python floats, modelled as real numbers: the coordinate formulas are
  those of the source, rounding is not modelled. The constants are those of the
  drawing library: \<^verbatim>\<open>inch = 72.0\<close>, \<^verbatim>\<open>cm = inch / 2.54\<close>, \<^verbatim>\<open>mm = cm * 0.1\<close>,
  \<^verbatim>\<open>A4 = (210 * mm, 297 * mm)\<close>.
\<close>

definition mm :: real where
  "mm = 72 / (254 / 100) * (1 / 10)"

definition A4 :: "real \<times> real" where
  "A4 = (210 * mm, 297 * mm)"

datatype color = black | white

datatype style_cmd =
    FONTSIZE "int \<times> int" "int \<times> int" real
  | LEFTPADDING "int \<times> int" "int \<times> int" real
  | BACKGROUND "int \<times> int" "int \<times> int" color

record Table =
  data :: "(string \<times> pytext) list"
  colWidths :: "real list"
  rowHeights :: "real list"
  style :: "style_cmd list"

record Frame =
  x1 :: real
  y1 :: real
  width :: real
  height :: real
  leftPadding :: real
  rightPadding :: real
  topPadding :: real
  bottomPadding :: real

text \<open>
  One operator of a page's content. A drawing operator carries the part of the graphics
  state it is painted with. \<open>Raw\<close> stands for content of the input document.
\<close>

datatype draw_op =
    Raw string
  | Rect real real real real (stroke: bool) (fill: bool) color color real
  | DrawString real real pytext "string \<times> real" color
  | DrawRightString real real pytext "string \<times> real" color
  | FrameTable Frame Table

type_synonym page = "draw_op list"

record canvas =
  canvas_pagesize :: "real \<times> real"
  strokeColor :: color
  fillColor :: color
  lineWidth :: real
  font :: "string \<times> real"
  code :: "draw_op list"
  doc_pages :: "page list"

text \<open>\<^verbatim>\<open>canvas.Canvas(packet, pagesize=...)\<close>: an empty document, the library's initial state.\<close>

definition Canvas :: "real \<times> real \<Rightarrow> canvas" where
  "Canvas ps = \<lparr>canvas_pagesize = ps, strokeColor = black, fillColor = black,
     lineWidth = 1, font = (''Helvetica'', 12), code = [], doc_pages = []\<rparr>"

definition setStrokeColor :: "color \<Rightarrow> canvas \<Rightarrow> canvas" where
  "setStrokeColor c cv = cv\<lparr>strokeColor := c\<rparr>"

definition setFillColor :: "color \<Rightarrow> canvas \<Rightarrow> canvas" where
  "setFillColor c cv = cv\<lparr>fillColor := c\<rparr>"

definition setLineWidth :: "real \<Rightarrow> canvas \<Rightarrow> canvas" where
  "setLineWidth w cv = cv\<lparr>lineWidth := w\<rparr>"

definition setFont :: "string \<Rightarrow> real \<Rightarrow> canvas \<Rightarrow> canvas" where
  "setFont psfontname sz cv = cv\<lparr>font := (psfontname, sz)\<rparr>"

definition rect :: "real \<Rightarrow> real \<Rightarrow> real \<Rightarrow> real \<Rightarrow> bool \<Rightarrow> bool \<Rightarrow> canvas \<Rightarrow> canvas" where
  "rect x y w h s f cv =
     cv\<lparr>code := code cv @ [Rect x y w h s f (strokeColor cv) (fillColor cv) (lineWidth cv)]\<rparr>"

definition drawString :: "real \<Rightarrow> real \<Rightarrow> pytext \<Rightarrow> canvas \<Rightarrow> canvas" where
  "drawString x y t cv = cv\<lparr>code := code cv @ [DrawString x y t (font cv) (fillColor cv)]\<rparr>"

definition drawRightString :: "real \<Rightarrow> real \<Rightarrow> pytext \<Rightarrow> canvas \<Rightarrow> canvas" where
  "drawRightString x y t cv =
     cv\<lparr>code := code cv @ [DrawRightString x y t (font cv) (fillColor cv)]\<rparr>"

text \<open>
  \<^verbatim>\<open>Frame(...).addFromList([t], canvas)\<close> on a new frame. The frame draws the table
  only if it has room: the height left between its paddings must be positive, and
  the table, as high as its rows together, must not exceed it by more than the
  library's tolerance \<^verbatim>\<open>_FUZZ\<close>. Otherwise the table stays in the list and nothing
  is drawn; no exception is raised.
\<close>

definition FUZZ :: real where
  "FUZZ = 1 / 1000000"

definition addFromList :: "Frame \<Rightarrow> Table \<Rightarrow> canvas \<Rightarrow> canvas" where
  "addFromList f t cv =
     (let aH = height f - topPadding f - bottomPadding f in
      if 0 < aH \<and> sum_list (rowHeights t) \<le> aH + FUZZ
      then cv\<lparr>code := code cv @ [FrameTable f t]\<rparr>
      else cv)"

text \<open>
  \<^verbatim>\<open>showPage\<close> closes the current page: its operators become a page of the document,
  and the next page starts empty in the initial graphics state.
\<close>

definition showPage :: "canvas \<Rightarrow> canvas" where
  "showPage cv = (Canvas (canvas_pagesize cv))\<lparr>doc_pages := doc_pages cv @ [code cv]\<rparr>"

text \<open>
  \<^verbatim>\<open>save\<close> closes a page that still has content, then writes the document to the
  packet; the packet is the list of the document's pages.
\<close>

definition save :: "canvas \<Rightarrow> page list" where
  "save cv = doc_pages (if code cv \<noteq> [] then showPage cv else cv)"

text \<open>\<^verbatim>\<open>PdfFileReader(packet).getPage(i)\<close>.\<close>

definition getPage :: "'a list \<Rightarrow> nat \<Rightarrow> error + 'a" where
  "getPage pdf i = list_getitem pdf i"

text \<open>
  \<^verbatim>\<open>page.mergePage(page2)\<close> gives \<open>page\<close> a new content: its own, then that of
  \<open>page2\<close> painted over it. \<open>page2\<close> is only read. A page is the sequence of its
  drawing operators; the resource dictionaries of a page, and the fresh names the
  library gives to resources of \<open>page2\<close> whose names clash, are not modelled.
\<close>

definition mergePage :: "page \<Rightarrow> page \<Rightarrow> page" where
  "mergePage p p2 = p @ p2"

section \<open>The mask factories\<close>

text \<open>
  \<^verbatim>\<open>TaskPageMask\<close> and \<^verbatim>\<open>AnswerSheetMask\<close> have the same six attributes; the class
  attribute \<^verbatim>\<open>pagesize\<close> is \<open>A4\<close> for every mask factory.
\<close>

record mask_attrs =
  left_margin :: real
  right_margin :: real
  top_margin :: real
  box_height :: real
  box_width :: real
  bottom_margin :: real

datatype mask_factory =
    MaskFactory
  | EmptyPageMask
  | TaskPageMask mask_attrs
  | AnswerSheetMask mask_attrs

definition pagesize :: "real \<times> real" where
  "pagesize = A4"

definition TaskPageMask_init :: "real \<Rightarrow> real \<Rightarrow> real \<Rightarrow> real \<Rightarrow> mask_factory" where
  "TaskPageMask_init bh lm rm tm = TaskPageMask
     \<lparr>left_margin = lm, right_margin = rm, top_margin = tm, box_height = bh,
      box_width = fst pagesize - lm - rm,
      bottom_margin = snd pagesize - tm - bh\<rparr>"

definition AnswerSheetMask_init :: "real \<Rightarrow> real \<Rightarrow> real \<Rightarrow> real \<Rightarrow> mask_factory" where
  "AnswerSheetMask_init bh bw rm tm = AnswerSheetMask
     \<lparr>left_margin = fst pagesize - rm - bw, right_margin = rm, top_margin = tm,
      box_height = bh, box_width = bw,
      bottom_margin = snd pagesize - tm - bh\<rparr>"

fun get_canvas :: "mask_factory \<Rightarrow> canvas" where
  "get_canvas (TaskPageMask m) =
     setLineWidth (2 / 10 * mm) (setFillColor white (setStrokeColor black (Canvas pagesize)))"
| "get_canvas (AnswerSheetMask m) =
     setFont ''Helvetica'' 8 (setLineWidth (2 / 10 * mm)
       (setFillColor white (setStrokeColor black (Canvas pagesize))))"
| "get_canvas MaskFactory = Canvas pagesize"
| "get_canvas EmptyPageMask = Canvas pagesize"

text \<open>\<^verbatim>\<open>context[k1][k2]\<close>.\<close>

definition getitem2 :: "dict \<Rightarrow> string \<Rightarrow> string \<Rightarrow> error + pyval" where
  "getitem2 ctx k1 k2 = bind_result (getitem ctx k1) (\<lambda>v. subscript v k2)"

definition TaskPageMask_render :: "mask_attrs \<Rightarrow> canvas \<Rightarrow> dict \<Rightarrow> error + canvas" where
  "TaskPageMask_render m cv ctx =
    (let cv1 = rect (left_margin m) (bottom_margin m) (box_width m) (box_height m) True True cv in
     bind_result (getitem2 ctx ''student'' ''last_name'') (\<lambda>s_last.
     bind_result (getitem2 ctx ''student'' ''first_name'') (\<lambda>s_first.
     bind_result (getitem2 ctx ''teacher'' ''last_name'') (\<lambda>t_last.
     bind_result (getitem2 ctx ''teacher'' ''first_name'') (\<lambda>t_first.
     bind_result (getitem2 ctx ''student'' ''id'') (\<lambda>s_id.
     bind_result (getitem ctx ''school'') (\<lambda>school.
       let d = [(''Last name:'', Value s_last),
                (''Name:'', Value s_first),
                (''Teacher:'', Format ''{} {}'' [t_last, t_first]),
                (''ID:'', Value s_id),
                (''School:'', Value school)];
           t = \<lparr>data = d, colWidths = [30 * mm, box_width m - 32 * mm],
                rowHeights = replicate (length d) ((box_height m - 3 * mm) / real (length d)),
                style = [FONTSIZE (0, 0) (-1, -1) 8,
                         LEFTPADDING (0, 0) (0, -1) 13,
                         BACKGROUND (0, 0) (-1, -1) white]\<rparr>;
           f = \<lparr>x1 = left_margin m, y1 = bottom_margin m,
                width = box_width m, height = box_height m,
                leftPadding = 1 * mm, rightPadding = 1 * mm,
                topPadding = 25 / 10 * mm, bottomPadding = 0 * mm\<rparr>
       in Inr (addFromList f t cv1))))))))"

definition AnswerSheetMask_render :: "mask_attrs \<Rightarrow> canvas \<Rightarrow> dict \<Rightarrow> error + canvas" where
  "AnswerSheetMask_render m cv ctx =
    (let cv1 = rect (left_margin m) (bottom_margin m) (box_width m) (box_height m) False True cv;
         cv2 = setFillColor black cv1 in
     bind_result (getitem2 ctx ''student'' ''id'') (\<lambda>s_id.
       let cv3 = drawString (left_margin m + 2 * mm) (bottom_margin m + 2 * mm)
                   (Format ''ID: {}'' [s_id]) cv2 in
       bind_result (getitem ctx ''page_num'') (\<lambda>page_num.
         Inr (drawRightString (left_margin m + box_width m - 2 * mm) (bottom_margin m + 2 * mm)
                (Format ''(Seite {})'' [page_num]) cv3))))"

fun render :: "mask_factory \<Rightarrow> canvas \<Rightarrow> dict \<Rightarrow> error + canvas" where
  "render MaskFactory cv ctx = Inl NotImplementedError"
| "render EmptyPageMask cv ctx = Inr cv"
| "render (TaskPageMask m) cv ctx = TaskPageMask_render m cv ctx"
| "render (AnswerSheetMask m) cv ctx = AnswerSheetMask_render m cv ctx"

text \<open>
  \<^verbatim>\<open>MaskFactory.get_mask_page\<close>, inherited by every subclass: the packet is what
  \<^const>\<open>save\<close> wrote.
\<close>

definition MaskFactory_get_mask_page :: "mask_factory \<Rightarrow> dict \<Rightarrow> error + page" where
  "MaskFactory_get_mask_page self ctx =
     bind_result (render self (get_canvas self) ctx) (\<lambda>c.
       let packet = save (showPage c) in getPage packet 0)"

text \<open>
  An entry of the mapping is any object with a \<^verbatim>\<open>get_mask_page\<close> method: an instance
  of \<^verbatim>\<open>MaskFactory\<close> or of a subclass, or a \<^verbatim>\<open>MultipleMaskFactory\<close>.
\<close>

datatype factory = Mask mask_factory | MultipleMaskFactory "factory list"

fun get_mask_page :: "factory \<Rightarrow> dict \<Rightarrow> error + page"
  and merge_factories :: "factory list \<Rightarrow> dict \<Rightarrow> page \<Rightarrow> error + page" where
  "get_mask_page (Mask m) ctx = MaskFactory_get_mask_page m ctx"
| "get_mask_page (MultipleMaskFactory []) ctx = Inl IndexError"
| "get_mask_page (MultipleMaskFactory (f # fs)) ctx =
     (case get_mask_page f ctx of
        Inl e \<Rightarrow> Inl e
      | Inr page \<Rightarrow> merge_factories fs ctx page)"
| "merge_factories [] ctx page = Inr page"
| "merge_factories (f # fs) ctx page =
     (case get_mask_page f ctx of
        Inl e \<Rightarrow> Inl e
      | Inr m \<Rightarrow> merge_factories fs ctx (mergePage page m))"

section \<open>The merge loop\<close>

text \<open>
  Page objects live in a store; an address is an index into it, and an object keeps its
  address. The input document is the list of the addresses of its page objects.
  \<^verbatim>\<open>copy.copy\<close> allocates a new page object with the entries of the old one; the copy is
  shallow, and \<^verbatim>\<open>mergePage\<close> assigns new content entries to the page it is called on
  without writing a value the two share, so a page object is a cell that holds its
  content, and \<^verbatim>\<open>mergePage\<close> writes the cell of the object it is called on.
  A mask page is a new object that nothing else refers to, so it is passed by value.
  The caller's context dictionary is part of the state: \<^verbatim>\<open>context.update\<close> writes it.
  An outcome is the state the call ends in, together with the exception if one leaves
  the call.
\<close>

type_synonym addr = nat

record merge_state =
  context_dict :: dict
  store :: "page list"
  output_pdf :: "addr list"

datatype outcome = Returned merge_state | Raised error merge_state

fun state_of :: "outcome \<Rightarrow> merge_state" where
  "state_of (Returned st) = st"
| "state_of (Raised e st) = st"

text \<open>The body of the inner loop, lines 137 to 143.\<close>

definition merge_body :: "factory list \<Rightarrow> addr list \<Rightarrow> nat \<Rightarrow> merge_state \<Rightarrow> outcome" where
  "merge_body mapping input_pdf page_num st =
    (let st1 = st\<lparr>context_dict := AList.update ''page_num'' (PInt (int page_num)) (context_dict st)\<rparr> in
     case getPage input_pdf page_num of
       Inl e \<Rightarrow> Raised e st1
     | Inr src \<Rightarrow>
        let page = length (store st1);
            st2 = st1\<lparr>store := store st1 @ [store st1 ! src]\<rparr> in
        (case list_getitem mapping page_num of
           Inl e \<Rightarrow> Raised e st2
         | Inr f \<Rightarrow>
            (case get_mask_page f (context_dict st2) of
               Inl e \<Rightarrow> Raised e st2
             | Inr mask_page \<Rightarrow>
                let st3 = st2\<lparr>store := (store st2)[page := mergePage (store st2 ! page) mask_page]\<rparr>
                in Returned (st3\<lparr>output_pdf := output_pdf st3 @ [page]\<rparr>))))"

fun pages_loop :: "factory list \<Rightarrow> addr list \<Rightarrow> nat list \<Rightarrow> merge_state \<Rightarrow> outcome" where
  "pages_loop mapping input_pdf [] st = Returned st"
| "pages_loop mapping input_pdf (page_num # rest) st =
     (case merge_body mapping input_pdf page_num st of
        Raised e st' \<Rightarrow> Raised e st'
      | Returned st' \<Rightarrow> pages_loop mapping input_pdf rest st')"

fun students_loop :: "factory list \<Rightarrow> addr list \<Rightarrow> pyval list \<Rightarrow> merge_state \<Rightarrow> outcome" where
  "students_loop mapping input_pdf [] st = Returned st"
| "students_loop mapping input_pdf (student # rest) st =
     (case pages_loop mapping input_pdf [0 ..< length input_pdf]
             (st\<lparr>context_dict := AList.update ''student'' student (context_dict st)\<rparr>) of
        Raised e st' \<Rightarrow> Raised e st'
      | Returned st' \<Rightarrow> students_loop mapping input_pdf rest st')"

text \<open>
  \<^verbatim>\<open>merge(context, students, mapping, input_pdf)\<close>, run in the store \<open>h\<close>. The writer
  is returned inside the final state, with the context as the loop left it.
\<close>

definition merge :: "dict \<Rightarrow> pyval list \<Rightarrow> factory list \<Rightarrow> addr list \<Rightarrow> page list \<Rightarrow> outcome" where
  "merge ctx students mapping input_pdf h =
     students_loop mapping input_pdf students \<lparr>context_dict = ctx, store = h, output_pdf = []\<rparr>"

text \<open>The document a writer holds: the contents of its pages, in order.\<close>

definition document :: "merge_state \<Rightarrow> page list" where
  "document st = map (\<lambda>a. store st ! a) (output_pdf st)"

section \<open>The configuration of the script\<close>

text \<open>Lines 152 to 188: the masks, the mapping, the students and the context.\<close>

definition simple_header_mask :: factory where
  "simple_header_mask = Mask (AnswerSheetMask_init (10 * mm) (42 * mm) (11 * mm) (15 * mm))"

definition script_mapping :: "factory list" where
  "script_mapping =
     [Mask EmptyPageMask,
      MultipleMaskFactory
        [Mask (TaskPageMask_init (25 * mm) (205 / 10 * mm) (145 / 10 * mm) (28 * mm)),
         simple_header_mask],
      simple_header_mask, simple_header_mask, simple_header_mask]"

definition script_students :: "pyval list" where
  "script_students =
     [PDict [(''first_name'', PStr ''Jonathan''), (''last_name'', PStr ''Stoppani''),
             (''id'', PInt 123455)],
      PDict [(''first_name'', PStr ''Vanessa''), (''last_name'', PStr ''Tay''),
             (''id'', PInt 98635)],
      PDict [(''first_name'', PStr ''Jakub''), (''last_name'', PStr ''Janoszek''),
             (''id'', PInt 19757)]]"

definition script_context :: dict where
  "script_context =
     [(''teacher'', PDict [(''first_name'', PStr ''Urs''), (''last_name'', PStr ''Moser'')]),
      (''school'', PStr ''DIVIO Test School'')]"

text \<open>An input document of two pages, for the examples.\<close>

definition template_pdf :: "page list" where
  "template_pdf = [[Raw ''cover''], [Raw ''tasks'']]"

section \<open>Notions used in the proofs\<close>

text \<open>
  The context a mask factory is called with for a student and a page number: the
  caller's dictionary after the two \<^verbatim>\<open>context.update\<close> calls of lines 132 and 137.
\<close>

definition context_at :: "dict \<Rightarrow> pyval \<Rightarrow> nat \<Rightarrow> dict" where
  "context_at ctx student page_num =
     AList.update ''page_num'' (PInt (int page_num)) (AList.update ''student'' student ctx)"

text \<open>The context after the inner loop has run for a student over \<open>n\<close> pages.\<close>

definition after_student :: "dict \<Rightarrow> pyval \<Rightarrow> nat \<Rightarrow> dict" where
  "after_student c s n =
     (if n = 0 then AList.update ''student'' s c else context_at c s (n - 1))"

text \<open>The body of the loop returns at page \<open>i\<close> when started with context \<open>c\<close>.\<close>

definition page_ok :: "factory list \<Rightarrow> addr list \<Rightarrow> dict \<Rightarrow> nat \<Rightarrow> bool" where
  "page_ok mapping r c i \<longleftrightarrow> i < length r \<and> i < length mapping \<and>
     \<not> isl (get_mask_page (mapping ! i) (AList.update ''page_num'' (PInt (int i)) c))"

text \<open>The content of the page the body then adds.\<close>

definition new_page :: "factory list \<Rightarrow> addr list \<Rightarrow> page list \<Rightarrow> dict \<Rightarrow> nat \<Rightarrow> page" where
  "new_page mapping r h c i = mergePage (h ! (r ! i))
     (projr (get_mask_page (mapping ! i) (AList.update ''page_num'' (PInt (int i)) c)))"

definition student_pages ::
    "factory list \<Rightarrow> addr list \<Rightarrow> page list \<Rightarrow> dict \<Rightarrow> pyval \<Rightarrow> page list" where
  "student_pages mapping r h c s =
     map (new_page mapping r h (AList.update ''student'' s c)) [0 ..< length r]"

text \<open>
  A later state extends an earlier one: the objects of the earlier store are unchanged,
  and the pages added to the writer since are distinct new objects.
\<close>

definition extends :: "merge_state \<Rightarrow> merge_state \<Rightarrow> bool" where
  "extends st st' \<longleftrightarrow>
     length (store st) \<le> length (store st') \<and>
     take (length (store st)) (store st') = store st \<and>
     take (length (output_pdf st)) (output_pdf st') = output_pdf st \<and>
     list_all (\<lambda>a. length (store st) \<le> a \<and> a < length (store st'))
       (drop (length (output_pdf st)) (output_pdf st')) \<and>
     distinct (drop (length (output_pdf st)) (output_pdf st'))"

section \<open>The mask factories: results\<close>

lemmas canvas_ops = Canvas_def setStrokeColor_def setFillColor_def setLineWidth_def setFont_def
  rect_def drawString_def drawRightString_def addFromList_def

lemma bind_result_Inr: "bind_result r f = Inr y \<longleftrightarrow> (\<exists>v. r = Inr v \<and> f v = Inr y)"
  by (cases r) (simp_all add: bind_result_def)

lemma bind_result_simps: "bind_result (Inl e) f = Inl e" "bind_result (Inr v) f = f v"
  by (simp_all add: bind_result_def)

lemma save_showPage: "save (showPage c) = doc_pages c @ [code c]"
  by (simp add: save_def showPage_def Canvas_def)

lemmas eval_defs = simple_header_mask_def script_mapping_def script_students_def
  script_context_def template_pdf_def AnswerSheetMask_init_def TaskPageMask_init_def
  MaskFactory_get_mask_page_def TaskPageMask_render_def AnswerSheetMask_render_def
  getitem2_def getitem_def bind_result_simps canvas_ops save_showPage getPage_def
  list_getitem_def context_at_def mergePage_def FUZZ_def mm_def

text \<open>None of the render methods closes a page itself.\<close>

lemma render_doc_pages: "render f (get_canvas f) ctx = Inr c \<Longrightarrow> doc_pages c = []"
  by (cases f) (auto simp: TaskPageMask_render_def AnswerSheetMask_render_def bind_result_Inr
      Let_def canvas_ops)

text \<open>
  Claim C4, as stated: for every mask factory with a render method and every context,
  \<^verbatim>\<open>get_mask_page\<close> returns a standalone one-page PDF page. It does not for every
  context: the render method of \<^verbatim>\<open>TaskPageMask\<close> reads \<^verbatim>\<open>context['student']\<close>, and with
  the context of the script as it is before \<^verbatim>\<open>merge\<close> has stored a student in it, the
  KeyError leaves \<^verbatim>\<open>get_mask_page\<close>.
\<close>

theorem get_mask_page_raises_counterexample:
  "MaskFactory_get_mask_page
     (TaskPageMask_init (25 * mm) (205 / 10 * mm) (145 / 10 * mm) (28 * mm)) script_context
   = Inl (KeyError ''student'')"
  by (simp add: eval_defs)

text \<open>
  Claim C4, amended: for every mask factory and every context on which its render
  method returns, \<^verbatim>\<open>get_mask_page\<close> renders onto a fresh canvas (no operator, no page),
  the one \<^verbatim>\<open>showPage\<close> before \<^verbatim>\<open>save\<close> closes exactly one page, so the saved packet
  is a document of exactly one page, holding what render drew, and that page, page 0
  of the packet, is returned.
\<close>

theorem get_mask_page_one_page:
  assumes "render self (get_canvas self) ctx = Inr c"
  shows "code (get_canvas self) = [] \<and> doc_pages (get_canvas self) = [] \<and>
    length (save (showPage c)) = 1 \<and> save (showPage c) = [code c] \<and>
    MaskFactory_get_mask_page self ctx = getPage (save (showPage c)) 0 \<and>
    MaskFactory_get_mask_page self ctx = Inr (code c)"
proof -
  have fresh: "code (get_canvas self) = [] \<and> doc_pages (get_canvas self) = []"
    by (cases self) (simp_all add: canvas_ops)
  have "doc_pages c = []"
    using assms by (rule render_doc_pages)
  then have packet: "save (showPage c) = [code c]"
    by (simp add: save_showPage)
  then have "MaskFactory_get_mask_page self ctx = Inr (code c)"
    using assms
    by (simp add: MaskFactory_get_mask_page_def bind_result_simps getPage_def list_getitem_def)
  with fresh packet show ?thesis
    by (simp add: getPage_def list_getitem_def)
qed

theorem get_mask_page_one_page_witness:
  "render (AnswerSheetMask
       \<lparr>left_margin = 157 * mm, right_margin = 11 * mm, top_margin = 15 * mm,
        box_height = 10 * mm, box_width = 42 * mm, bottom_margin = 272 * mm\<rparr>)
     (get_canvas (AnswerSheetMask
       \<lparr>left_margin = 157 * mm, right_margin = 11 * mm, top_margin = 15 * mm,
        box_height = 10 * mm, box_width = 42 * mm, bottom_margin = 272 * mm\<rparr>))
     [(''student'', PDict [(''id'', PInt 123455)]), (''page_num'', PInt 2)] =
   Inr \<lparr>canvas_pagesize = pagesize, strokeColor = black, fillColor = black,
     lineWidth = 2 / 10 * mm, font = (''Helvetica'', 8),
     code = [Rect (157 * mm) (272 * mm) (42 * mm) (10 * mm) False True black white (2 / 10 * mm),
       DrawString (157 * mm + 2 * mm) (272 * mm + 2 * mm) (Format ''ID: {}'' [PInt 123455])
         (''Helvetica'', 8) black,
       DrawRightString (157 * mm + 42 * mm - 2 * mm) (272 * mm + 2 * mm)
         (Format ''(Seite {})'' [PInt 2]) (''Helvetica'', 8) black],
     doc_pages = []\<rparr> \<and>
   MaskFactory_get_mask_page (AnswerSheetMask
       \<lparr>left_margin = 157 * mm, right_margin = 11 * mm, top_margin = 15 * mm,
        box_height = 10 * mm, box_width = 42 * mm, bottom_margin = 272 * mm\<rparr>)
     [(''student'', PDict [(''id'', PInt 123455)]), (''page_num'', PInt 2)] =
   Inr [Rect (157 * mm) (272 * mm) (42 * mm) (10 * mm) False True black white (2 / 10 * mm),
       DrawString (157 * mm + 2 * mm) (272 * mm + 2 * mm) (Format ''ID: {}'' [PInt 123455])
         (''Helvetica'', 8) black,
       DrawRightString (157 * mm + 42 * mm - 2 * mm) (272 * mm + 2 * mm)
         (Format ''(Seite {})'' [PInt 2]) (''Helvetica'', 8) black] \<and>
   length (save (showPage \<lparr>canvas_pagesize = pagesize, strokeColor = black, fillColor = black,
     lineWidth = 2 / 10 * mm, font = (''Helvetica'', 8),
     code = [Rect (157 * mm) (272 * mm) (42 * mm) (10 * mm) False True black white (2 / 10 * mm),
       DrawString (157 * mm + 2 * mm) (272 * mm + 2 * mm) (Format ''ID: {}'' [PInt 123455])
         (''Helvetica'', 8) black,
       DrawRightString (157 * mm + 42 * mm - 2 * mm) (272 * mm + 2 * mm)
         (Format ''(Seite {})'' [PInt 2]) (''Helvetica'', 8) black],
     doc_pages = []\<rparr>)) = 1"
proof -
  let ?self = "AnswerSheetMask
       \<lparr>left_margin = 157 * mm, right_margin = 11 * mm, top_margin = 15 * mm,
        box_height = 10 * mm, box_width = 42 * mm, bottom_margin = 272 * mm\<rparr>"
  let ?ctx = "[(''student'', PDict [(''id'', PInt 123455)]), (''page_num'', PInt 2)]"
  let ?c = "\<lparr>canvas_pagesize = pagesize, strokeColor = black, fillColor = black,
     lineWidth = 2 / 10 * mm, font = (''Helvetica'', 8),
     code = [Rect (157 * mm) (272 * mm) (42 * mm) (10 * mm) False True black white (2 / 10 * mm),
       DrawString (157 * mm + 2 * mm) (272 * mm + 2 * mm) (Format ''ID: {}'' [PInt 123455])
         (''Helvetica'', 8) black,
       DrawRightString (157 * mm + 42 * mm - 2 * mm) (272 * mm + 2 * mm)
         (Format ''(Seite {})'' [PInt 2]) (''Helvetica'', 8) black],
     doc_pages = []\<rparr>"
  have r: "render ?self (get_canvas ?self) ?ctx = Inr ?c"
    by (simp add: AnswerSheetMask_render_def getitem2_def getitem_def bind_result_simps
        canvas_ops)
  note one = get_mask_page_one_page[OF r]
  have page: "MaskFactory_get_mask_page ?self ?ctx = Inr (code ?c)"
    using one by blast
  have len: "length (save (showPage ?c)) = 1"
    using one by blast
  show ?thesis
    using r page len by simp
qed

text \<open>
  Claim C7: the constructors derive the box placement by fixed formulas. For every
  \<^verbatim>\<open>TaskPageMask\<close>, \<open>box_width\<close> is the page width less the left and the right margin and
  \<open>bottom_margin\<close> is the page height less the top margin and the box height; for every
  \<^verbatim>\<open>AnswerSheetMask\<close>, \<open>left_margin\<close> is the page width less the right margin and the box
  width, and \<open>bottom_margin\<close> as before. The page is A4, 210 mm by 297 mm; the other
  attributes are the arguments.
\<close>

theorem mask_constructor_formulas:
  "TaskPageMask_init bh lm rm tm = TaskPageMask
     \<lparr>left_margin = lm, right_margin = rm, top_margin = tm, box_height = bh,
      box_width = fst pagesize - lm - rm, bottom_margin = snd pagesize - tm - bh\<rparr> \<and>
   AnswerSheetMask_init bh bw rm tm = AnswerSheetMask
     \<lparr>left_margin = fst pagesize - rm - bw, right_margin = rm, top_margin = tm,
      box_height = bh, box_width = bw, bottom_margin = snd pagesize - tm - bh\<rparr> \<and>
   pagesize = (210 * mm, 297 * mm)"
  by (simp add: TaskPageMask_init_def AnswerSheetMask_init_def pagesize_def A4_def)

lemma mm_pos: "0 < mm"
  by (simp add: mm_def)

text \<open>
  What \<^verbatim>\<open>TaskPageMask.render\<close> draws on a context that holds every entry it reads: the
  rectangle, and the table if the box is higher than the top padding of the frame.
\<close>

lemma TaskPageMask_render_page:
  assumes "getitem ctx ''student'' = Inr student" and "subscript student ''last_name'' = Inr s_last"
    and "subscript student ''first_name'' = Inr s_first" and "subscript student ''id'' = Inr s_id"
    and "getitem ctx ''teacher'' = Inr teacher" and "subscript teacher ''last_name'' = Inr t_last"
    and "subscript teacher ''first_name'' = Inr t_first" and "getitem ctx ''school'' = Inr school"
  shows "get_mask_page (Mask (TaskPageMask m)) ctx = Inr
      (Rect (left_margin m) (bottom_margin m) (box_width m) (box_height m) True True
         black white (2 / 10 * mm) #
       (if 25 / 10 * mm < box_height m then
         [FrameTable
           \<lparr>x1 = left_margin m, y1 = bottom_margin m, width = box_width m,
            height = box_height m, leftPadding = 1 * mm, rightPadding = 1 * mm,
            topPadding = 25 / 10 * mm, bottomPadding = 0 * mm\<rparr>
           \<lparr>data = [(''Last name:'', Value s_last), (''Name:'', Value s_first),
                    (''Teacher:'', Format ''{} {}'' [t_last, t_first]),
                    (''ID:'', Value s_id), (''School:'', Value school)],
            colWidths = [30 * mm, box_width m - 32 * mm],
            rowHeights = replicate 5 ((box_height m - 3 * mm) / 5),
            style = [FONTSIZE (0, 0) (-1, -1) 8, LEFTPADDING (0, 0) (0, -1) 13,
                     BACKGROUND (0, 0) (-1, -1) white]\<rparr>]
        else []))"
proof -
  let ?F = "\<lparr>x1 = left_margin m, y1 = bottom_margin m, width = box_width m,
            height = box_height m, leftPadding = 1 * mm, rightPadding = 1 * mm,
            topPadding = 25 / 10 * mm, bottomPadding = 0 * mm\<rparr>"
  let ?T = "\<lparr>data = [(''Last name:'', Value s_last), (''Name:'', Value s_first),
                    (''Teacher:'', Format ''{} {}'' [t_last, t_first]),
                    (''ID:'', Value s_id), (''School:'', Value school)],
            colWidths = [30 * mm, box_width m - 32 * mm],
            rowHeights = replicate 5 ((box_height m - 3 * mm) / 5),
            style = [FONTSIZE (0, 0) (-1, -1) 8, LEFTPADDING (0, 0) (0, -1) 13,
                     BACKGROUND (0, 0) (-1, -1) white]\<rparr>"
  have drawn: "TaskPageMask_render m cv ctx = Inr (addFromList ?F ?T
      (rect (left_margin m) (bottom_margin m) (box_width m) (box_height m) True True cv))" for cv
    using assms
    by (simp add: TaskPageMask_render_def getitem2_def bind_result_simps Let_def numeral_eq_Suc)
  have rows: "sum_list (replicate 5 ((box_height m - 3 * mm) / 5)) = box_height m - 3 * mm"
    by (simp add: sum_list_replicate)
  have room: "addFromList ?F ?T cv =
      (if 25 / 10 * mm < box_height m then cv\<lparr>code := code cv @ [FrameTable ?F ?T]\<rparr> else cv)"
    for cv
    using mm_pos unfolding addFromList_def Let_def
    by (simp only: Frame.simps Table.simps rows) (simp add: FUZZ_def)
  show ?thesis
    by (simp add: MaskFactory_get_mask_page_def drawn room[simplified] bind_result_simps Canvas_def
        setStrokeColor_def setFillColor_def setLineWidth_def rect_def save_showPage getPage_def
        list_getitem_def)
qed

text \<open>
  Claim C8, as stated: for every context, \<^verbatim>\<open>TaskPageMask\<close> renders a white-filled
  rectangle containing a five-row table with the student's and the teacher's names, the
  ID and the school. It does not on a context that lacks an entry: with the context
  of the script before a student is stored in it, the mask page of the script's
  \<^verbatim>\<open>TaskPageMask\<close> is not made, KeyError is raised. Nor does it for every mask: with
  every entry in the context, a \<^verbatim>\<open>TaskPageMask\<close> whose box is 1 mm high draws the
  rectangle and no table, the frame having no room under its top padding of 2.5 mm.
\<close>

theorem mask_page_content_counterexample:
  "get_mask_page
     (Mask (TaskPageMask_init (25 * mm) (205 / 10 * mm) (145 / 10 * mm) (28 * mm)))
     script_context = Inl (KeyError ''student'') \<and>
   get_mask_page
     (Mask (TaskPageMask_init (1 * mm) (205 / 10 * mm) (145 / 10 * mm) (28 * mm)))
     (context_at script_context (hd script_students) 1) = Inr
       [Rect (205 / 10 * mm) (297 * mm - 28 * mm - 1 * mm)
          (210 * mm - 205 / 10 * mm - 145 / 10 * mm) (1 * mm) True True
          black white (2 / 10 * mm)]"
  by (simp add: eval_defs pagesize_def A4_def)

text \<open>
  Claim C8, amended: the overlays carry the identifying information. For every context
  that holds a student (last name, first name, ID), a teacher (last name, first name)
  and a school, and every \<^verbatim>\<open>TaskPageMask\<close> whose box is higher than 2.5 mm, the page
  of the mask is a white-filled, black-stroked rectangle at the box, then a table on
  white background in a frame at the box, of five rows: the student's last name,
  first name, the teacher's last name and first name in one cell, the student's ID,
  the school; with a box of 2.5 mm or less the page is the rectangle alone. For every
  context that holds a student ID and a page number, the page of an
  \<^verbatim>\<open>AnswerSheetMask\<close> is a white-filled rectangle without stroke at the box, then the
  ID and the page number as black text, 2 mm inside its lower corners.
\<close>

theorem mask_page_content:
  "(getitem ctx ''student'' = Inr student \<and> subscript student ''last_name'' = Inr s_last \<and>
    subscript student ''first_name'' = Inr s_first \<and> subscript student ''id'' = Inr s_id \<and>
    getitem ctx ''teacher'' = Inr teacher \<and> subscript teacher ''last_name'' = Inr t_last \<and>
    subscript teacher ''first_name'' = Inr t_first \<and> getitem ctx ''school'' = Inr school \<longrightarrow>
    (25 / 10 * mm < box_height m \<longrightarrow>
     get_mask_page (Mask (TaskPageMask m)) ctx = Inr
      [Rect (left_margin m) (bottom_margin m) (box_width m) (box_height m) True True
         black white (2 / 10 * mm),
       FrameTable
         \<lparr>x1 = left_margin m, y1 = bottom_margin m, width = box_width m, height = box_height m,
          leftPadding = 1 * mm, rightPadding = 1 * mm, topPadding = 25 / 10 * mm,
          bottomPadding = 0 * mm\<rparr>
         \<lparr>data = [(''Last name:'', Value s_last), (''Name:'', Value s_first),
                  (''Teacher:'', Format ''{} {}'' [t_last, t_first]),
                  (''ID:'', Value s_id), (''School:'', Value school)],
          colWidths = [30 * mm, box_width m - 32 * mm],
          rowHeights = replicate 5 ((box_height m - 3 * mm) / 5),
          style = [FONTSIZE (0, 0) (-1, -1) 8, LEFTPADDING (0, 0) (0, -1) 13,
                   BACKGROUND (0, 0) (-1, -1) white]\<rparr>]) \<and>
    (box_height low \<le> 25 / 10 * mm \<longrightarrow>
     get_mask_page (Mask (TaskPageMask low)) ctx = Inr
      [Rect (left_margin low) (bottom_margin low) (box_width low) (box_height low) True True
         black white (2 / 10 * mm)])) \<and>
   (getitem ctx ''student'' = Inr student \<and> subscript student ''id'' = Inr s_id \<and>
    getitem ctx ''page_num'' = Inr page_num \<longrightarrow>
    get_mask_page (Mask (AnswerSheetMask m')) ctx = Inr
      [Rect (left_margin m') (bottom_margin m') (box_width m') (box_height m') False True
         black white (2 / 10 * mm),
       DrawString (left_margin m' + 2 * mm) (bottom_margin m' + 2 * mm)
         (Format ''ID: {}'' [s_id]) (''Helvetica'', 8) black,
       DrawRightString (left_margin m' + box_width m' - 2 * mm) (bottom_margin m' + 2 * mm)
         (Format ''(Seite {})'' [page_num]) (''Helvetica'', 8) black])"
proof (intro conjI impI)
  assume c: "getitem ctx ''student'' = Inr student \<and> subscript student ''last_name'' = Inr s_last \<and>
    subscript student ''first_name'' = Inr s_first \<and> subscript student ''id'' = Inr s_id \<and>
    getitem ctx ''teacher'' = Inr teacher \<and> subscript teacher ''last_name'' = Inr t_last \<and>
    subscript teacher ''first_name'' = Inr t_first \<and> getitem ctx ''school'' = Inr school"
  {
    assume "25 / 10 * mm < box_height m"
    with c show "get_mask_page (Mask (TaskPageMask m)) ctx = Inr
      [Rect (left_margin m) (bottom_margin m) (box_width m) (box_height m) True True
         black white (2 / 10 * mm),
       FrameTable
         \<lparr>x1 = left_margin m, y1 = bottom_margin m, width = box_width m, height = box_height m,
          leftPadding = 1 * mm, rightPadding = 1 * mm, topPadding = 25 / 10 * mm,
          bottomPadding = 0 * mm\<rparr>
         \<lparr>data = [(''Last name:'', Value s_last), (''Name:'', Value s_first),
                  (''Teacher:'', Format ''{} {}'' [t_last, t_first]),
                  (''ID:'', Value s_id), (''School:'', Value school)],
          colWidths = [30 * mm, box_width m - 32 * mm],
          rowHeights = replicate 5 ((box_height m - 3 * mm) / 5),
          style = [FONTSIZE (0, 0) (-1, -1) 8, LEFTPADDING (0, 0) (0, -1) 13,
                   BACKGROUND (0, 0) (-1, -1) white]\<rparr>]"
      using TaskPageMask_render_page[of ctx student s_last s_first s_id teacher t_last
            t_first school m] by simp
  }
  {
    assume "box_height low \<le> 25 / 10 * mm"
    with c show "get_mask_page (Mask (TaskPageMask low)) ctx = Inr
      [Rect (left_margin low) (bottom_margin low) (box_width low) (box_height low) True True
         black white (2 / 10 * mm)]"
      using TaskPageMask_render_page[of ctx student s_last s_first s_id teacher t_last
            t_first school low] by simp
  }
next
  assume "getitem ctx ''student'' = Inr student \<and> subscript student ''id'' = Inr s_id \<and>
    getitem ctx ''page_num'' = Inr page_num"
  then show "get_mask_page (Mask (AnswerSheetMask m')) ctx = Inr
      [Rect (left_margin m') (bottom_margin m') (box_width m') (box_height m') False True
         black white (2 / 10 * mm),
       DrawString (left_margin m' + 2 * mm) (bottom_margin m' + 2 * mm)
         (Format ''ID: {}'' [s_id]) (''Helvetica'', 8) black,
       DrawRightString (left_margin m' + box_width m' - 2 * mm) (bottom_margin m' + 2 * mm)
         (Format ''(Seite {})'' [page_num]) (''Helvetica'', 8) black]"
    by (simp add: MaskFactory_get_mask_page_def AnswerSheetMask_render_def getitem2_def
        bind_result_simps canvas_ops save_showPage getPage_def list_getitem_def)
qed

theorem mask_page_content_witness:
  "(getitem (context_at script_context (hd script_students) 1) ''student'' =
      Inr (hd script_students) \<and>
    subscript (hd script_students) ''last_name'' = Inr (PStr ''Stoppani'') \<and>
    subscript (hd script_students) ''first_name'' = Inr (PStr ''Jonathan'') \<and>
    subscript (hd script_students) ''id'' = Inr (PInt 123455) \<and>
    getitem (context_at script_context (hd script_students) 1) ''teacher'' =
      Inr (PDict [(''first_name'', PStr ''Urs''), (''last_name'', PStr ''Moser'')]) \<and>
    subscript (PDict [(''first_name'', PStr ''Urs''), (''last_name'', PStr ''Moser'')])
      ''last_name'' = Inr (PStr ''Moser'') \<and>
    subscript (PDict [(''first_name'', PStr ''Urs''), (''last_name'', PStr ''Moser'')])
      ''first_name'' = Inr (PStr ''Urs'') \<and>
    getitem (context_at script_context (hd script_students) 1) ''school'' =
      Inr (PStr ''DIVIO Test School'') \<and>
    getitem (context_at script_context (hd script_students) 1) ''page_num'' = Inr (PInt 1) \<and>
    25 / 10 * mm < 25 * mm \<and> 1 * mm \<le> 25 / 10 * mm) \<and>
   get_mask_page (Mask (TaskPageMask_init (25 * mm) (205 / 10 * mm) (145 / 10 * mm) (28 * mm)))
       (context_at script_context (hd script_students) 1) = Inr
      [Rect (205 / 10 * mm) (297 * mm - 28 * mm - 25 * mm)
         (210 * mm - 205 / 10 * mm - 145 / 10 * mm) (25 * mm) True True
         black white (2 / 10 * mm),
       FrameTable
         \<lparr>x1 = 205 / 10 * mm, y1 = 297 * mm - 28 * mm - 25 * mm,
          width = 210 * mm - 205 / 10 * mm - 145 / 10 * mm, height = 25 * mm,
          leftPadding = 1 * mm, rightPadding = 1 * mm, topPadding = 25 / 10 * mm,
          bottomPadding = 0 * mm\<rparr>
         \<lparr>data = [(''Last name:'', Value (PStr ''Stoppani'')),
                  (''Name:'', Value (PStr ''Jonathan'')),
                  (''Teacher:'', Format ''{} {}'' [PStr ''Moser'', PStr ''Urs'']),
                  (''ID:'', Value (PInt 123455)),
                  (''School:'', Value (PStr ''DIVIO Test School''))],
          colWidths = [30 * mm, 210 * mm - 205 / 10 * mm - 145 / 10 * mm - 32 * mm],
          rowHeights = replicate 5 ((25 * mm - 3 * mm) / 5),
          style = [FONTSIZE (0, 0) (-1, -1) 8, LEFTPADDING (0, 0) (0, -1) 13,
                   BACKGROUND (0, 0) (-1, -1) white]\<rparr>] \<and>
   get_mask_page (Mask (TaskPageMask_init (1 * mm) (205 / 10 * mm) (145 / 10 * mm) (28 * mm)))
       (context_at script_context (hd script_students) 1) = Inr
      [Rect (205 / 10 * mm) (297 * mm - 28 * mm - 1 * mm)
         (210 * mm - 205 / 10 * mm - 145 / 10 * mm) (1 * mm) True True
         black white (2 / 10 * mm)] \<and>
   get_mask_page simple_header_mask (context_at script_context (hd script_students) 1) = Inr
      [Rect (210 * mm - 11 * mm - 42 * mm) (297 * mm - 15 * mm - 10 * mm) (42 * mm) (10 * mm)
         False True black white (2 / 10 * mm),
       DrawString (210 * mm - 11 * mm - 42 * mm + 2 * mm) (297 * mm - 15 * mm - 10 * mm + 2 * mm)
         (Format ''ID: {}'' [PInt 123455]) (''Helvetica'', 8) black,
       DrawRightString (210 * mm - 11 * mm - 42 * mm + 42 * mm - 2 * mm)
         (297 * mm - 15 * mm - 10 * mm + 2 * mm)
         (Format ''(Seite {})'' [PInt 1]) (''Helvetica'', 8) black]"
proof -
  let ?ctx = "context_at script_context (hd script_students) 1"
  let ?teacher = "PDict [(''first_name'', PStr ''Urs''), (''last_name'', PStr ''Moser'')]"
  let ?task = "\<lparr>left_margin = 205 / 10 * mm, right_margin = 145 / 10 * mm, top_margin = 28 * mm,
      box_height = 25 * mm, box_width = 210 * mm - 205 / 10 * mm - 145 / 10 * mm,
      bottom_margin = 297 * mm - 28 * mm - 25 * mm\<rparr>"
  let ?low = "\<lparr>left_margin = 205 / 10 * mm, right_margin = 145 / 10 * mm, top_margin = 28 * mm,
      box_height = 1 * mm, box_width = 210 * mm - 205 / 10 * mm - 145 / 10 * mm,
      bottom_margin = 297 * mm - 28 * mm - 1 * mm\<rparr>"
  let ?header = "\<lparr>left_margin = 210 * mm - 11 * mm - 42 * mm, right_margin = 11 * mm,
      top_margin = 15 * mm, box_height = 10 * mm, box_width = 42 * mm,
      bottom_margin = 297 * mm - 15 * mm - 10 * mm\<rparr>"
  have task: "TaskPageMask_init (25 * mm) (205 / 10 * mm) (145 / 10 * mm) (28 * mm) =
      TaskPageMask ?task"
    by (simp add: TaskPageMask_init_def pagesize_def A4_def)
  have low: "TaskPageMask_init (1 * mm) (205 / 10 * mm) (145 / 10 * mm) (28 * mm) =
      TaskPageMask ?low"
    by (simp add: TaskPageMask_init_def pagesize_def A4_def)
  have header: "simple_header_mask = Mask (AnswerSheetMask ?header)"
    by (simp add: simple_header_mask_def AnswerSheetMask_init_def pagesize_def A4_def)
  have hyps: "getitem ?ctx ''student'' = Inr (hd script_students) \<and>
    subscript (hd script_students) ''last_name'' = Inr (PStr ''Stoppani'') \<and>
    subscript (hd script_students) ''first_name'' = Inr (PStr ''Jonathan'') \<and>
    subscript (hd script_students) ''id'' = Inr (PInt 123455) \<and>
    getitem ?ctx ''teacher'' = Inr ?teacher \<and>
    subscript ?teacher ''last_name'' = Inr (PStr ''Moser'') \<and>
    subscript ?teacher ''first_name'' = Inr (PStr ''Urs'') \<and>
    getitem ?ctx ''school'' = Inr (PStr ''DIVIO Test School'') \<and>
    getitem ?ctx ''page_num'' = Inr (PInt 1)"
    by (simp add: context_at_def script_context_def script_students_def getitem_def)
  have room: "25 / 10 * mm < box_height ?task" "box_height ?low \<le> 25 / 10 * mm"
    using mm_pos by simp_all
  from hyps room mask_page_content[where ctx = ?ctx and student = "hd script_students"
      and s_last = "PStr ''Stoppani''" and s_first = "PStr ''Jonathan''"
      and s_id = "PInt 123455" and teacher = ?teacher and t_last = "PStr ''Moser''"
      and t_first = "PStr ''Urs''" and school = "PStr ''DIVIO Test School''"
      and m = ?task and low = ?low and page_num = "PInt 1" and m' = ?header]
  show ?thesis
    unfolding task low header by simp
qed

lemma merge_factories_all:
  "list_all2 (\<lambda>g q. get_mask_page g ctx = Inr q) fs qs \<Longrightarrow>
   merge_factories fs ctx p = Inr (foldl mergePage p qs)"
  by (induction fs qs arbitrary: p rule: list_all2_induct) simp_all

lemma merge_factories_error:
  "merge_factories fs ctx p = Inl e \<Longrightarrow> \<exists>g\<in>set fs. get_mask_page g ctx = Inl e"
  by (induction fs arbitrary: p) (auto split: sum.splits)

text \<open>
  Claim C9, as stated: for every non-empty list of factories,
  \<^verbatim>\<open>MultipleMaskFactory.get_mask_page\<close> returns the first factory's mask page with the
  others merged onto it, non-emptiness being the precondition under which no error is
  reached. A non-empty list does not make the call return: the script's own
  \<^verbatim>\<open>MultipleMaskFactory\<close>, on the context of the script before a student is stored in
  it, raises the KeyError of its first factory; and a list whose one factory is an
  empty \<^verbatim>\<open>MultipleMaskFactory\<close> raises IndexError itself.
\<close>

theorem multiple_mask_page_counterexample:
  "get_mask_page
     (MultipleMaskFactory
        [Mask (TaskPageMask_init (25 * mm) (205 / 10 * mm) (145 / 10 * mm) (28 * mm)),
         simple_header_mask])
     script_context = Inl (KeyError ''student'') \<and>
   get_mask_page (MultipleMaskFactory [MultipleMaskFactory []]) script_context = Inl IndexError"
  by (simp add: eval_defs)

text \<open>
  Claim C9, amended: \<^verbatim>\<open>MultipleMaskFactory.get_mask_page\<close> fails with IndexError on the
  empty list of factories. On a non-empty list each of whose factories returns a mask
  page for the context, the first the page \<open>p\<close> and the remaining ones the pages \<open>qs\<close>,
  it returns \<open>p\<close> with the pages \<open>qs\<close> merged onto it in list order. On a non-empty
  list the lookup of the first factory does not fail: an exception that leaves the
  call is one that a factory of the list raised.
\<close>

theorem multiple_mask_page:
  "get_mask_page (MultipleMaskFactory []) ctx = Inl IndexError \<and>
   (get_mask_page f ctx = Inr p \<and> list_all2 (\<lambda>g q. get_mask_page g ctx = Inr q) fs qs \<longrightarrow>
      get_mask_page (MultipleMaskFactory (f # fs)) ctx = Inr (foldl mergePage p qs)) \<and>
   (get_mask_page (MultipleMaskFactory (f' # fs')) ctx' = Inl e \<longrightarrow>
      (\<exists>g\<in>set (f' # fs'). get_mask_page g ctx' = Inl e))"
  by (auto simp: merge_factories_all split: sum.splits dest: merge_factories_error)

theorem multiple_mask_page_witness:
  "get_mask_page (MultipleMaskFactory []) (context_at script_context (hd script_students) 1) =
     Inl IndexError \<and>
   (get_mask_page simple_header_mask (context_at script_context (hd script_students) 1) =
      Inr (projr (get_mask_page simple_header_mask
        (context_at script_context (hd script_students) 1))) \<and>
    list_all2 (\<lambda>g q. get_mask_page g (context_at script_context (hd script_students) 1) = Inr q)
      [Mask (AnswerSheetMask_init (10 * mm) (42 * mm) (11 * mm) (30 * mm)),
       Mask (AnswerSheetMask_init (10 * mm) (42 * mm) (11 * mm) (45 * mm))]
      [projr (get_mask_page (Mask (AnswerSheetMask_init (10 * mm) (42 * mm) (11 * mm) (30 * mm)))
         (context_at script_context (hd script_students) 1)),
       projr (get_mask_page (Mask (AnswerSheetMask_init (10 * mm) (42 * mm) (11 * mm) (45 * mm)))
         (context_at script_context (hd script_students) 1))]) \<and>
   get_mask_page
     (MultipleMaskFactory
        [simple_header_mask,
         Mask (AnswerSheetMask_init (10 * mm) (42 * mm) (11 * mm) (30 * mm)),
         Mask (AnswerSheetMask_init (10 * mm) (42 * mm) (11 * mm) (45 * mm))])
     (context_at script_context (hd script_students) 1) =
   Inr (foldl mergePage
     (projr (get_mask_page simple_header_mask
        (context_at script_context (hd script_students) 1)))
     [projr (get_mask_page (Mask (AnswerSheetMask_init (10 * mm) (42 * mm) (11 * mm) (30 * mm)))
        (context_at script_context (hd script_students) 1)),
      projr (get_mask_page (Mask (AnswerSheetMask_init (10 * mm) (42 * mm) (11 * mm) (45 * mm)))
        (context_at script_context (hd script_students) 1))]) \<and>
   foldl mergePage
     (projr (get_mask_page simple_header_mask
        (context_at script_context (hd script_students) 1)))
     [projr (get_mask_page (Mask (AnswerSheetMask_init (10 * mm) (42 * mm) (11 * mm) (30 * mm)))
        (context_at script_context (hd script_students) 1)),
      projr (get_mask_page (Mask (AnswerSheetMask_init (10 * mm) (42 * mm) (11 * mm) (45 * mm)))
        (context_at script_context (hd script_students) 1))] =
     [Rect (157 * mm) (272 * mm) (42 * mm) (10 * mm) False True black white (2 / 10 * mm),
      DrawString (159 * mm) (274 * mm) (Format ''ID: {}'' [PInt 123455]) (''Helvetica'', 8) black,
      DrawRightString (197 * mm) (274 * mm) (Format ''(Seite {})'' [PInt 1])
        (''Helvetica'', 8) black,
      Rect (157 * mm) (257 * mm) (42 * mm) (10 * mm) False True black white (2 / 10 * mm),
      DrawString (159 * mm) (259 * mm) (Format ''ID: {}'' [PInt 123455]) (''Helvetica'', 8) black,
      DrawRightString (197 * mm) (259 * mm) (Format ''(Seite {})'' [PInt 1])
        (''Helvetica'', 8) black,
      Rect (157 * mm) (242 * mm) (42 * mm) (10 * mm) False True black white (2 / 10 * mm),
      DrawString (159 * mm) (244 * mm) (Format ''ID: {}'' [PInt 123455]) (''Helvetica'', 8) black,
      DrawRightString (197 * mm) (244 * mm) (Format ''(Seite {})'' [PInt 1])
        (''Helvetica'', 8) black] \<and>
   get_mask_page (MultipleMaskFactory [Mask MaskFactory, simple_header_mask]) script_context =
     Inl NotImplementedError \<and>
   (\<exists>g\<in>set [Mask MaskFactory, simple_header_mask].
      get_mask_page g script_context = Inl NotImplementedError)"
proof -
  let ?ctx = "context_at script_context (hd script_students) 1"
  let ?g2 = "Mask (AnswerSheetMask_init (10 * mm) (42 * mm) (11 * mm) (30 * mm))"
  let ?g3 = "Mask (AnswerSheetMask_init (10 * mm) (42 * mm) (11 * mm) (45 * mm))"
  let ?p = "projr (get_mask_page simple_header_mask ?ctx)"
  let ?q2 = "projr (get_mask_page ?g2 ?ctx)"
  let ?q3 = "projr (get_mask_page ?g3 ?ctx)"
  have first: "get_mask_page simple_header_mask ?ctx = Inr ?p"
    by (simp add: eval_defs)
  have rest: "list_all2 (\<lambda>g q. get_mask_page g ?ctx = Inr q) [?g2, ?g3] [?q2, ?q3]"
    by (simp add: eval_defs)
  have order: "foldl mergePage ?p [?q2, ?q3] =
     [Rect (157 * mm) (272 * mm) (42 * mm) (10 * mm) False True black white (2 / 10 * mm),
      DrawString (159 * mm) (274 * mm) (Format ''ID: {}'' [PInt 123455]) (''Helvetica'', 8) black,
      DrawRightString (197 * mm) (274 * mm) (Format ''(Seite {})'' [PInt 1])
        (''Helvetica'', 8) black,
      Rect (157 * mm) (257 * mm) (42 * mm) (10 * mm) False True black white (2 / 10 * mm),
      DrawString (159 * mm) (259 * mm) (Format ''ID: {}'' [PInt 123455]) (''Helvetica'', 8) black,
      DrawRightString (197 * mm) (259 * mm) (Format ''(Seite {})'' [PInt 1])
        (''Helvetica'', 8) black,
      Rect (157 * mm) (242 * mm) (42 * mm) (10 * mm) False True black white (2 / 10 * mm),
      DrawString (159 * mm) (244 * mm) (Format ''ID: {}'' [PInt 123455]) (''Helvetica'', 8) black,
      DrawRightString (197 * mm) (244 * mm) (Format ''(Seite {})'' [PInt 1])
        (''Helvetica'', 8) black]"
    by (simp add: eval_defs pagesize_def A4_def)
  have err: "get_mask_page (MultipleMaskFactory [Mask MaskFactory, simple_header_mask])
      script_context = Inl NotImplementedError"
    by (simp add: MaskFactory_get_mask_page_def bind_result_simps)
  from multiple_mask_page[of ?ctx simple_header_mask ?p "[?g2, ?g3]" "[?q2, ?q3]"
      "Mask MaskFactory" "[simple_header_mask]" script_context NotImplementedError]
    first rest order err
  show ?thesis by blast
qed

section \<open>The context dictionary along the loops\<close>

lemma update_commute_present:
  "k \<noteq> k' \<Longrightarrow> k \<in> fst ` set al \<Longrightarrow>
   AList.update k v (AList.update k' v' al) = AList.update k' v' (AList.update k v al)"
  by (induction al) auto

lemma student_after_page_num:
  "AList.update ''student'' s' (AList.update ''page_num'' v (AList.update ''student'' s c)) =
   AList.update ''page_num'' v (AList.update ''student'' s' c)"
proof -
  have "''student'' \<in> fst ` set (AList.update ''student'' s c)"
    by (simp add: dom_update)
  then have "AList.update ''student'' s' (AList.update ''page_num'' v (AList.update ''student'' s c)) =
    AList.update ''page_num'' v (AList.update ''student'' s' (AList.update ''student'' s c))"
    by (intro update_commute_present) simp_all
  then show ?thesis by simp
qed

lemma context_at_student [simp]:
  "context_at (AList.update ''student'' s c) s' i = context_at c s' i"
  by (simp add: context_at_def)

lemma context_at_context_at [simp]:
  "context_at (context_at c s j) s' i = context_at c s' i"
  by (simp add: context_at_def student_after_page_num)

lemma getitem_context_at:
  "getitem (context_at c s i) ''student'' = Inr s"
  "getitem (context_at c s i) ''page_num'' = Inr (PInt (int i))"
  by (simp_all add: getitem_def context_at_def update_conv')

lemma after_student_after_student [simp]:
  "after_student (after_student c s n) s' n = after_student c s' n"
  by (simp add: after_student_def)

section \<open>The loops, when no exception is raised\<close>

lemma merge_body_Returned:
  "merge_body mapping r i st = Returned st' \<longleftrightarrow>
     i < length r \<and> i < length mapping \<and>
     (\<exists>m. get_mask_page (mapping ! i)
             (AList.update ''page_num'' (PInt (int i)) (context_dict st)) = Inr m \<and>
          st' = st\<lparr>context_dict := AList.update ''page_num'' (PInt (int i)) (context_dict st),
                   store := store st @ [mergePage (store st ! (r ! i)) m],
                   output_pdf := output_pdf st @ [length (store st)]\<rparr>)"
  by (auto simp: merge_body_def getPage_def list_getitem_def Let_def split: sum.splits)

lemma page_ok_update [simp]:
  "page_ok mapping r (AList.update ''page_num'' v c) i = page_ok mapping r c i"
  by (simp add: page_ok_def)

lemma new_page_update [simp]:
  "new_page mapping r h (AList.update ''page_num'' v c) i = new_page mapping r h c i"
  by (simp add: new_page_def)

lemma new_page_append:
  "i < length r \<Longrightarrow> \<forall>a\<in>set r. a < length h \<Longrightarrow>
   new_page mapping r (h @ ys) c i = new_page mapping r h c i"
  by (simp add: new_page_def nth_append)

lemma merge_body_ok:
  "page_ok mapping r (context_dict st) i \<Longrightarrow>
   merge_body mapping r i st = Returned
     (st\<lparr>context_dict := AList.update ''page_num'' (PInt (int i)) (context_dict st),
         store := store st @ [new_page mapping r (store st) (context_dict st) i],
         output_pdf := output_pdf st @ [length (store st)]\<rparr>)"
proof -
  assume ok: "page_ok mapping r (context_dict st) i"
  then obtain m where m: "get_mask_page (mapping ! i)
      (AList.update ''page_num'' (PInt (int i)) (context_dict st)) = Inr m"
    by (cases "get_mask_page (mapping ! i)
      (AList.update ''page_num'' (PInt (int i)) (context_dict st))") (auto simp: page_ok_def)
  with ok show ?thesis
    by (simp add: merge_body_Returned page_ok_def new_page_def)
qed

lemma merge_body_Returned_ok:
  "merge_body mapping r i st = Returned st' \<Longrightarrow> page_ok mapping r (context_dict st) i"
  by (auto simp: merge_body_Returned page_ok_def)

lemma pages_loop_ok:
  assumes "\<forall>a\<in>set r. a < length (store st)" and "\<forall>i\<in>set pns. page_ok mapping r (context_dict st) i"
  shows "pages_loop mapping r pns st = Returned
     (st\<lparr>context_dict := (if pns = [] then context_dict st
                            else AList.update ''page_num'' (PInt (int (last pns))) (context_dict st)),
         store := store st @ map (new_page mapping r (store st) (context_dict st)) pns,
         output_pdf := output_pdf st @ [length (store st) ..< length (store st) + length pns]\<rparr>)"
  using assms
proof (induction pns arbitrary: st)
  case Nil
  then show ?case by simp
next
  case (Cons i pns)
  let ?st1 = "st\<lparr>context_dict := AList.update ''page_num'' (PInt (int i)) (context_dict st),
         store := store st @ [new_page mapping r (store st) (context_dict st) i],
         output_pdf := output_pdf st @ [length (store st)]\<rparr>"
  have body: "merge_body mapping r i st = Returned ?st1"
    using Cons.prems(2) by (simp add: merge_body_ok)
  have valid1: "\<forall>a\<in>set r. a < length (store ?st1)"
    using Cons.prems(1) by auto
  have ok1: "\<forall>j\<in>set pns. page_ok mapping r (context_dict ?st1) j"
    using Cons.prems(2) by simp
  have pages: "map (new_page mapping r (store ?st1) (context_dict ?st1)) pns =
      map (new_page mapping r (store st) (context_dict st)) pns"
    using Cons.prems by (auto simp: new_page_append page_ok_def)
  have upt: "[length (store st)] @ [Suc (length (store st)) ..< Suc (length (store st)) + length pns]
      = [length (store st) ..< length (store st) + length (i # pns)]"
    by (simp add: upt_rec)
  show ?case
    using Cons.IH[OF valid1 ok1] body pages upt by simp
qed

lemma pages_loop_Returned_ok:
  "pages_loop mapping r pns st = Returned st' \<Longrightarrow> \<forall>i\<in>set pns. page_ok mapping r (context_dict st) i"
proof (induction pns arbitrary: st)
  case Nil
  then show ?case by simp
next
  case (Cons i pns)
  then obtain st1 where body: "merge_body mapping r i st = Returned st1"
    and rest: "pages_loop mapping r pns st1 = Returned st'"
    by (auto split: outcome.splits)
  have "context_dict st1 = AList.update ''page_num'' (PInt (int i)) (context_dict st)"
    using body by (auto simp: merge_body_Returned)
  with Cons.IH[OF rest] merge_body_Returned_ok[OF body] show ?case by simp
qed

lemma page_ok_context_at:
  "page_ok mapping r (AList.update ''student'' s c) i \<longleftrightarrow>
     i < length r \<and> i < length mapping \<and> \<not> isl (get_mask_page (mapping ! i) (context_at c s i))"
  by (simp add: page_ok_def context_at_def)

lemma new_page_context_at:
  "new_page mapping r h (AList.update ''student'' s c) i =
     mergePage (h ! (r ! i)) (projr (get_mask_page (mapping ! i) (context_at c s i)))"
  by (simp add: new_page_def context_at_def)

lemma page_ok_after_student [simp]:
  "page_ok mapping r (AList.update ''student'' s' (after_student c s n)) i =
   page_ok mapping r (AList.update ''student'' s' c) i"
  by (simp add: page_ok_context_at after_student_def)

lemma new_page_after_student [simp]:
  "new_page mapping r h (AList.update ''student'' s' (after_student c s n)) i =
   new_page mapping r h (AList.update ''student'' s' c) i"
  by (simp add: new_page_context_at after_student_def)

lemma pages_loop_range:
  assumes "\<forall>a\<in>set r. a < length (store st)"
    and "\<forall>i<length r. page_ok mapping r (AList.update ''student'' s (context_dict st)) i"
  shows "pages_loop mapping r [0 ..< length r]
           (st\<lparr>context_dict := AList.update ''student'' s (context_dict st)\<rparr>) = Returned
     (st\<lparr>context_dict := after_student (context_dict st) s (length r),
         store := store st @ map (new_page mapping r (store st)
                    (AList.update ''student'' s (context_dict st))) [0 ..< length r],
         output_pdf := output_pdf st @ [length (store st) ..< length (store st) + length r]\<rparr>)"
proof -
  let ?st = "st\<lparr>context_dict := AList.update ''student'' s (context_dict st)\<rparr>"
  have "\<forall>a\<in>set r. a < length (store ?st)"
    using assms(1) by simp
  moreover have "\<forall>i\<in>set [0 ..< length r]. page_ok mapping r (context_dict ?st) i"
    using assms(2) by simp
  ultimately have "pages_loop mapping r [0 ..< length r] ?st = Returned
     (?st\<lparr>context_dict := (if [0 ..< length r] = [] then context_dict ?st
              else AList.update ''page_num'' (PInt (int (last [0 ..< length r]))) (context_dict ?st)),
         store := store ?st @ map (new_page mapping r (store ?st) (context_dict ?st)) [0 ..< length r],
         output_pdf := output_pdf ?st @
           [length (store ?st) ..< length (store ?st) + length [0 ..< length r]]\<rparr>)"
    by (rule pages_loop_ok)
  moreover have "(if [0 ..< length r] = [] then context_dict ?st
              else AList.update ''page_num'' (PInt (int (last [0 ..< length r]))) (context_dict ?st))
      = after_student (context_dict st) s (length r)"
    by (cases "length r") (simp_all add: after_student_def context_at_def)
  ultimately show ?thesis by simp
qed

lemma length_student_pages [simp]: "length (student_pages mapping r h c s) = length r"
  by (simp add: student_pages_def)

lemma student_pages_after_student [simp]:
  "student_pages mapping r h (after_student c s n) s' = student_pages mapping r h c s'"
  by (simp add: student_pages_def)

lemma student_pages_append:
  "\<forall>a\<in>set r. a < length h \<Longrightarrow>
   student_pages mapping r (h @ ys) c s = student_pages mapping r h c s"
  by (simp add: student_pages_def new_page_append)

lemma upt_append_add: "[a ..< a + b] @ [a + b ..< a + b + c] = [a ..< a + (b + c)]"
  by (metis le_add1 upt_add_eq_append add.assoc)

lemma students_loop_ok:
  assumes "\<forall>a\<in>set r. a < length (store st)"
    and "\<forall>s\<in>set ss. \<forall>i<length r. page_ok mapping r (AList.update ''student'' s (context_dict st)) i"
  shows "students_loop mapping r ss st = Returned
     (st\<lparr>context_dict := (if ss = [] then context_dict st
                            else after_student (context_dict st) (last ss) (length r)),
         store := store st @ concat (map (student_pages mapping r (store st) (context_dict st)) ss),
         output_pdf := output_pdf st @
           [length (store st) ..< length (store st) + length ss * length r]\<rparr>)"
  using assms
proof (induction ss arbitrary: st)
  case Nil
  then show ?case by simp
next
  case (Cons s ss)
  let ?st1 = "st\<lparr>context_dict := after_student (context_dict st) s (length r),
         store := store st @ student_pages mapping r (store st) (context_dict st) s,
         output_pdf := output_pdf st @ [length (store st) ..< length (store st) + length r]\<rparr>"
  have inner: "pages_loop mapping r [0 ..< length r]
           (st\<lparr>context_dict := AList.update ''student'' s (context_dict st)\<rparr>) = Returned ?st1"
    using Cons.prems by (simp add: pages_loop_range student_pages_def)
  have valid1: "\<forall>a\<in>set r. a < length (store ?st1)"
    using Cons.prems(1) by auto
  have ok1: "\<forall>s'\<in>set ss. \<forall>i<length r.
      page_ok mapping r (AList.update ''student'' s' (context_dict ?st1)) i"
    using Cons.prems(2) by simp
  have pages: "map (student_pages mapping r (store ?st1) (context_dict ?st1)) ss =
      map (student_pages mapping r (store st) (context_dict st)) ss"
    using Cons.prems(1) by (simp add: student_pages_append)
  have upt: "[length (store st) ..< length (store st) + length r] @
      [length (store st) + length r ..< length (store st) + length r + length ss * length r]
      = [length (store st) ..< length (store st) + length (s # ss) * length r]"
    using upt_append_add[of "length (store st)" "length r" "length ss * length r"] by simp
  note ih = Cons.IH[OF valid1 ok1, unfolded pages]
  show ?case
    using ih inner upt by simp
qed

lemma students_loop_Returned_ok:
  "students_loop mapping r ss st = Returned st' \<Longrightarrow> \<forall>a\<in>set r. a < length (store st) \<Longrightarrow>
   \<forall>s\<in>set ss. \<forall>i<length r. page_ok mapping r (AList.update ''student'' s (context_dict st)) i"
proof (induction ss arbitrary: st)
  case Nil
  then show ?case by simp
next
  case (Cons s ss)
  let ?st0 = "st\<lparr>context_dict := AList.update ''student'' s (context_dict st)\<rparr>"
  from Cons.prems(1) obtain st1 where inner: "pages_loop mapping r [0 ..< length r] ?st0 = Returned st1"
    and rest: "students_loop mapping r ss st1 = Returned st'"
    by (auto split: outcome.splits)
  have ok: "\<forall>i<length r. page_ok mapping r (AList.update ''student'' s (context_dict st)) i"
    using pages_loop_Returned_ok[OF inner] by simp
  have st1: "st1 = st\<lparr>context_dict := after_student (context_dict st) s (length r),
         store := store st @ map (new_page mapping r (store st)
                    (AList.update ''student'' s (context_dict st))) [0 ..< length r],
         output_pdf := output_pdf st @ [length (store st) ..< length (store st) + length r]\<rparr>"
    using pages_loop_range[OF Cons.prems(2) ok] inner by simp
  have "\<forall>a\<in>set r. a < length (store st1)"
    using Cons.prems(2) by (auto simp: st1)
  from Cons.IH[OF rest this] ok show ?case
    by (simp add: st1)
qed

lemma merge_ok:
  assumes "\<forall>a\<in>set r. a < length h"
    and "\<forall>s\<in>set ss. \<forall>i<length r. page_ok mapping r (AList.update ''student'' s ctx) i"
  shows "merge ctx ss mapping r h = Returned
    \<lparr>context_dict = (if ss = [] then ctx else after_student ctx (last ss) (length r)),
     store = h @ concat (map (student_pages mapping r h ctx) ss),
     output_pdf = [length h ..< length h + length ss * length r]\<rparr>"
  using students_loop_ok[of r "\<lparr>context_dict = ctx, store = h, output_pdf = []\<rparr>" ss mapping] assms
  by (simp add: merge_def)

lemma merge_Returned_ok:
  assumes "\<forall>a\<in>set r. a < length h" and "merge ctx ss mapping r h = Returned st'"
  shows "\<forall>s\<in>set ss. \<forall>i<length r. page_ok mapping r (AList.update ''student'' s ctx) i"
  using students_loop_Returned_ok[of mapping r ss "\<lparr>context_dict = ctx, store = h, output_pdf = []\<rparr>" st']
    assms by (simp add: merge_def)

lemma merge_Returned_iff:
  assumes "\<forall>a\<in>set r. a < length h"
  shows "merge ctx ss mapping r h = Returned st' \<longleftrightarrow>
    (\<forall>s\<in>set ss. \<forall>i<length r. page_ok mapping r (AList.update ''student'' s ctx) i) \<and>
    st' = \<lparr>context_dict = (if ss = [] then ctx else after_student ctx (last ss) (length r)),
           store = h @ concat (map (student_pages mapping r h ctx) ss),
           output_pdf = [length h ..< length h + length ss * length r]\<rparr>"
  using merge_ok[OF assms, of ss mapping ctx] merge_Returned_ok[OF assms, of ctx ss mapping st']
  by auto

lemma nth_concat_uniform:
  "\<forall>xs\<in>set xss. length xs = n \<Longrightarrow> s < length xss \<Longrightarrow> i < n \<Longrightarrow>
   concat xss ! (s * n + i) = xss ! s ! i"
proof (induction xss arbitrary: s)
  case Nil
  then show ?case by simp
next
  case (Cons xs xss)
  show ?case
  proof (cases s)
    case 0
    with Cons.prems show ?thesis by (simp add: nth_append)
  next
    case (Suc s')
    with Cons.prems have "concat xss ! (s' * n + i) = xss ! s' ! i"
      by (intro Cons.IH) simp_all
    with Cons.prems Suc show ?thesis by (simp add: nth_append)
  qed
qed

lemma merged_page_nth:
  assumes "s < length ss" and "i < length r"
  shows "concat (map (student_pages mapping r h ctx) ss) ! (s * length r + i) =
     mergePage (h ! (r ! i)) (projr (get_mask_page (mapping ! i) (context_at ctx (ss ! s) i)))"
proof -
  have "concat (map (student_pages mapping r h ctx) ss) ! (s * length r + i) =
      map (student_pages mapping r h ctx) ss ! s ! i"
    using assms by (intro nth_concat_uniform) auto
  also have "\<dots> = new_page mapping r h (AList.update ''student'' (ss ! s) ctx) i"
    using assms by (simp add: student_pages_def)
  finally show ?thesis
    by (simp add: new_page_context_at)
qed

lemma position_bound: "s < (m::nat) \<Longrightarrow> i < n \<Longrightarrow> s * n + i < m * n"
proof -
  assume "s < m" "i < n"
  then have "s * n + i < s * n + n" by simp
  also have "\<dots> = Suc s * n" by simp
  also have "\<dots> \<le> m * n" using \<open>s < m\<close> by (intro mult_le_mono1) simp
  finally show ?thesis .
qed

text \<open>The script's configuration on the two-page document: every mask page is produced.\<close>

lemma script_valid: "\<forall>a\<in>set [0, 1::nat]. a < length template_pdf"
  by (simp add: template_pdf_def)

lemma script_masks:
  "\<forall>s\<in>set script_students. \<forall>i<length [0, 1::nat].
     \<not> isl (get_mask_page (script_mapping ! i) (context_at script_context s i))"
  by (simp add: eval_defs less_Suc_eq all_conj_distrib)

lemma script_run:
  "merge script_context script_students script_mapping [0, 1] template_pdf =
   Returned (state_of (merge script_context script_students script_mapping [0, 1] template_pdf))"
  by (simp add: merge_def merge_body_def eval_defs upt_rec Let_def)

lemma script_valid_list: "list_all (\<lambda>a. a < length template_pdf) [0, 1]"
  by (simp add: template_pdf_def)

lemma script_masks_list:
  "list_all (\<lambda>s. list_all (\<lambda>i.
       \<not> isl (get_mask_page (script_mapping ! i) (context_at script_context s i)))
     [0 ..< length [0, 1::nat]]) script_students"
  using script_masks by (simp add: list_all_iff)

text \<open>
  Claim C1, as stated: for every context, student list, mapping and input PDF of \<open>n\<close>
  pages, \<open>n\<close> not exceeding the mapping length, \<^verbatim>\<open>merge\<close> returns a writer of
  \<open>len(students) * n\<close> pages. It does not when a mask factory raises: with the script's
  students and mapping, a two-page input and a context without the teacher, the
  \<^verbatim>\<open>TaskPageMask\<close> of the second page raises KeyError, and \<^verbatim>\<open>merge\<close> raises with one
  page in the writer.
\<close>

theorem merge_mask_raises_counterexample:
  "merge [] script_students script_mapping [0, 1] template_pdf =
   Raised (KeyError ''teacher'')
     \<lparr>context_dict =
        [(''student'', PDict [(''first_name'', PStr ''Jonathan''),
           (''last_name'', PStr ''Stoppani''), (''id'', PInt 123455)]),
         (''page_num'', PInt 1)],
      store = [[Raw ''cover''], [Raw ''tasks''], [Raw ''cover''], [Raw ''tasks'']],
      output_pdf = [2]\<rparr>"
  by (simp add: merge_def merge_body_def eval_defs upt_rec Let_def)

text \<open>
  Claim C1, amended: for every context, student list, mapping and input PDF of \<open>n\<close>
  pages (page objects of the store), \<open>n\<close> not exceeding the mapping length, such that
  the mask factory of each page returns a mask page for each student, \<^verbatim>\<open>merge\<close>
  returns a writer of exactly \<open>len(students) * n\<close> pages in student-major, page-minor
  order: the page at position \<open>s * n + i\<close> is input page \<open>i\<close> with the mask page of
  \<open>mapping[i]\<close> for student \<open>s\<close> and page number \<open>i\<close> merged onto it.
\<close>

theorem merge_pages:
  assumes "\<forall>a\<in>set input_pdf. a < length h"
    and "length input_pdf \<le> length mapping"
    and "\<forall>s\<in>set students. \<forall>i<length input_pdf.
           \<not> isl (get_mask_page (mapping ! i) (context_at ctx s i))"
  shows "\<exists>st'. merge ctx students mapping input_pdf h = Returned st' \<and>
     length (output_pdf st') = length students * length input_pdf \<and>
     (\<forall>s<length students. \<forall>i<length input_pdf.
        document st' ! (s * length input_pdf + i) =
          mergePage (h ! (input_pdf ! i))
            (projr (get_mask_page (mapping ! i) (context_at ctx (students ! s) i))))"
proof -
  let ?st' = "\<lparr>context_dict = (if students = [] then ctx
                 else after_student ctx (last students) (length input_pdf)),
           store = h @ concat (map (student_pages mapping input_pdf h ctx) students),
           output_pdf = [length h ..< length h + length students * length input_pdf]\<rparr>"
  have "\<forall>s\<in>set students. \<forall>i<length input_pdf.
      page_ok mapping input_pdf (AList.update ''student'' s ctx) i"
    using assms(2,3) by (simp add: page_ok_context_at)
  then have ret: "merge ctx students mapping input_pdf h = Returned ?st'"
    by (simp add: merge_Returned_iff[OF assms(1)])
  have "document ?st' ! (s * length input_pdf + i) =
          mergePage (h ! (input_pdf ! i))
            (projr (get_mask_page (mapping ! i) (context_at ctx (students ! s) i)))"
    if "s < length students" "i < length input_pdf" for s i
    using that position_bound[OF that] by (simp add: document_def merged_page_nth)
  with ret show ?thesis by simp
qed

theorem merge_pages_witness:
  "list_all (\<lambda>a. a < length template_pdf) [0, 1] \<and>
   length [0, 1::nat] \<le> length script_mapping \<and>
   list_all (\<lambda>s. list_all (\<lambda>i.
       \<not> isl (get_mask_page (script_mapping ! i) (context_at script_context s i)))
     [0 ..< length [0, 1::nat]]) script_students \<and>
   (\<exists>st'. merge script_context script_students script_mapping [0, 1] template_pdf =
        Returned st' \<and>
      length (output_pdf st') = length script_students * length [0, 1::nat] \<and>
      (\<forall>s<length script_students. \<forall>i<length [0, 1::nat].
         document st' ! (s * length [0, 1::nat] + i) =
           mergePage (template_pdf ! ([0, 1] ! i))
             (projr (get_mask_page (script_mapping ! i)
                (context_at script_context (script_students ! s) i)))))"
proof -
  have len: "length [0, 1::nat] \<le> length script_mapping"
    by (simp add: script_mapping_def)
  from merge_pages[OF script_valid len script_masks] script_valid_list len script_masks_list
  show ?thesis by blast
qed

text \<open>
  Claim C2: when \<^verbatim>\<open>merge\<close> returns, the output page for student \<open>s\<close> and input page
  index \<open>i\<close> is a copy of input page \<open>i\<close> (a new object, with the content the input
  page had), onto which the mask page that \<open>mapping[i].get_mask_page(context)\<close>
  returned, for the context holding that student and page number, has been merged.
\<close>

theorem merge_page_composition:
  assumes "\<forall>a\<in>set input_pdf. a < length h"
    and "merge ctx students mapping input_pdf h = Returned st'"
    and "s < length students" and "i < length input_pdf"
  shows "\<exists>m. i < length mapping \<and>
     get_mask_page (mapping ! i) (context_at ctx (students ! s) i) = Inr m \<and>
     length h \<le> output_pdf st' ! (s * length input_pdf + i) \<and>
     store st' ! (output_pdf st' ! (s * length input_pdf + i)) =
       mergePage (h ! (input_pdf ! i)) m"
proof -
  from assms(2) have ok: "\<forall>s\<in>set students. \<forall>i<length input_pdf.
      page_ok mapping input_pdf (AList.update ''student'' s ctx) i"
    and st': "st' = \<lparr>context_dict = (if students = [] then ctx
                 else after_student ctx (last students) (length input_pdf)),
           store = h @ concat (map (student_pages mapping input_pdf h ctx) students),
           output_pdf = [length h ..< length h + length students * length input_pdf]\<rparr>"
    by (simp_all add: merge_Returned_iff[OF assms(1)])
  from ok assms(3,4) have "page_ok mapping input_pdf (AList.update ''student'' (students ! s) ctx) i"
    by simp
  then obtain m where "i < length mapping"
    and m: "get_mask_page (mapping ! i) (context_at ctx (students ! s) i) = Inr m"
    by (cases "get_mask_page (mapping ! i) (context_at ctx (students ! s) i)")
       (auto simp: page_ok_context_at)
  moreover have "output_pdf st' ! (s * length input_pdf + i) = length h + (s * length input_pdf + i)"
    using position_bound[OF assms(3,4)] by (simp add: st')
  moreover have "store st' ! (length h + (s * length input_pdf + i)) = mergePage (h ! (input_pdf ! i)) m"
    using merged_page_nth[OF assms(3,4), of mapping h ctx] m by (simp add: st')
  ultimately show ?thesis by simp
qed

theorem merge_page_composition_witness:
  "list_all (\<lambda>a. a < length template_pdf) [0, 1] \<and>
   merge script_context script_students script_mapping [0, 1] template_pdf =
     Returned (state_of (merge script_context script_students script_mapping [0, 1] template_pdf)) \<and>
   (2::nat) < length script_students \<and> (1::nat) < length [0, 1::nat] \<and>
   (\<exists>m. 1 < length script_mapping \<and>
      get_mask_page (script_mapping ! 1) (context_at script_context (script_students ! 2) 1) =
        Inr m \<and>
      length template_pdf \<le>
        output_pdf (state_of (merge script_context script_students script_mapping [0, 1]
          template_pdf)) ! (2 * length [0, 1::nat] + 1) \<and>
      store (state_of (merge script_context script_students script_mapping [0, 1] template_pdf)) !
        (output_pdf (state_of (merge script_context script_students script_mapping [0, 1]
          template_pdf)) ! (2 * length [0, 1::nat] + 1)) =
        mergePage (template_pdf ! ([0, 1] ! 1)) m)"
proof -
  have s: "(2::nat) < length script_students"
    by (simp add: script_students_def)
  have i: "(1::nat) < length [0, 1::nat]"
    by simp
  from merge_page_composition[OF script_valid script_run s i] script_valid_list script_run s i
  show ?thesis by blast
qed

text \<open>
  Claim C10: \<^verbatim>\<open>merge\<close> writes the caller's context dictionary. For a non-empty student
  list and an input PDF of at least one page, after \<^verbatim>\<open>merge\<close> returns,
  \<^verbatim>\<open>context['student']\<close> is the last student and \<^verbatim>\<open>context['page_num']\<close> the last page
  index, the dictionary being the caller's with these two entries updated; and the mask
  page on each output page was made from a dictionary in which \<^verbatim>\<open>'student'\<close> and
  \<^verbatim>\<open>'page_num'\<close> are the student and the page index of that output page.
\<close>

theorem merge_context_in_place:
  assumes "\<forall>a\<in>set input_pdf. a < length h"
    and "students \<noteq> []" and "input_pdf \<noteq> []"
    and "merge ctx students mapping input_pdf h = Returned st'"
  shows "getitem (context_dict st') ''student'' = Inr (last students) \<and>
     getitem (context_dict st') ''page_num'' = Inr (PInt (int (length input_pdf - 1))) \<and>
     context_dict st' = AList.update ''page_num'' (PInt (int (length input_pdf - 1)))
                          (AList.update ''student'' (last students) ctx) \<and>
     (\<forall>s<length students. \<forall>i<length input_pdf. \<exists>c m.
        getitem c ''student'' = Inr (students ! s) \<and>
        getitem c ''page_num'' = Inr (PInt (int i)) \<and>
        get_mask_page (mapping ! i) c = Inr m \<and>
        document st' ! (s * length input_pdf + i) = mergePage (h ! (input_pdf ! i)) m)"
proof -
  from assms(4) have ok: "\<forall>s\<in>set students. \<forall>i<length input_pdf.
      page_ok mapping input_pdf (AList.update ''student'' s ctx) i"
    and st': "st' = \<lparr>context_dict = (if students = [] then ctx
                 else after_student ctx (last students) (length input_pdf)),
           store = h @ concat (map (student_pages mapping input_pdf h ctx) students),
           output_pdf = [length h ..< length h + length students * length input_pdf]\<rparr>"
    by (simp_all add: merge_Returned_iff[OF assms(1)])
  have ctx': "context_dict st' = context_at ctx (last students) (length input_pdf - 1)"
    using assms(2,3) by (simp add: st' after_student_def)
  have "\<exists>c m. getitem c ''student'' = Inr (students ! s) \<and>
        getitem c ''page_num'' = Inr (PInt (int i)) \<and>
        get_mask_page (mapping ! i) c = Inr m \<and>
        document st' ! (s * length input_pdf + i) = mergePage (h ! (input_pdf ! i)) m"
    if si: "s < length students" "i < length input_pdf" for s i
  proof -
    from ok si have "page_ok mapping input_pdf (AList.update ''student'' (students ! s) ctx) i"
      by simp
    then obtain m where m: "get_mask_page (mapping ! i) (context_at ctx (students ! s) i) = Inr m"
      by (cases "get_mask_page (mapping ! i) (context_at ctx (students ! s) i)")
         (auto simp: page_ok_context_at)
    have "document st' ! (s * length input_pdf + i) = mergePage (h ! (input_pdf ! i)) m"
      using merged_page_nth[OF si, of mapping h ctx] m position_bound[OF si]
      by (simp add: st' document_def)
    with m show ?thesis
      using getitem_context_at[of ctx "students ! s" i] by blast
  qed
  then show ?thesis
    using ctx' by (simp add: getitem_context_at) (simp add: context_at_def)
qed

theorem merge_context_in_place_witness:
  "list_all (\<lambda>a. a < length template_pdf) [0, 1] \<and> script_students \<noteq> [] \<and>
   [0, 1::nat] \<noteq> [] \<and>
   merge script_context script_students script_mapping [0, 1] template_pdf =
     Returned (state_of (merge script_context script_students script_mapping [0, 1] template_pdf)) \<and>
   getitem (context_dict (state_of (merge script_context script_students script_mapping [0, 1]
       template_pdf))) ''student'' = Inr (last script_students) \<and>
   getitem (context_dict (state_of (merge script_context script_students script_mapping [0, 1]
       template_pdf))) ''page_num'' = Inr (PInt (int (length [0, 1::nat] - 1))) \<and>
   context_dict (state_of (merge script_context script_students script_mapping [0, 1]
       template_pdf)) =
     AList.update ''page_num'' (PInt (int (length [0, 1::nat] - 1)))
       (AList.update ''student'' (last script_students) script_context) \<and>
   (1::nat) < length script_students \<and> (0::nat) < length [0, 1::nat] \<and>
   (\<exists>c m.
      getitem c ''student'' = Inr (script_students ! 1) \<and>
      getitem c ''page_num'' = Inr (PInt (int 0)) \<and>
      get_mask_page (script_mapping ! 0) c = Inr m \<and>
      document (state_of (merge script_context script_students script_mapping [0, 1]
          template_pdf)) ! (1 * length [0, 1::nat] + 0) =
        mergePage (template_pdf ! ([0, 1] ! 0)) m)"
proof -
  have s: "script_students \<noteq> []"
    by (simp add: script_students_def)
  have i: "[0, 1::nat] \<noteq> []"
    by simp
  have s1: "(1::nat) < length script_students"
    by (simp add: script_students_def)
  have i0: "(0::nat) < length [0, 1::nat]"
    by simp
  from merge_context_in_place[OF script_valid s i script_run] script_valid_list s i script_run
    s1 i0
  show ?thesis by blast
qed

section \<open>Pages past the mapping\<close>

lemma pages_loop_append:
  "pages_loop mapping r (xs @ ys) st =
     (case pages_loop mapping r xs st of
        Raised e st' \<Rightarrow> Raised e st'
      | Returned st' \<Rightarrow> pages_loop mapping r ys st')"
  by (induction xs arbitrary: st) (simp_all split: outcome.splits)

lemma merge_body_past_mapping:
  "length mapping \<le> i \<Longrightarrow> i < length r \<Longrightarrow>
   merge_body mapping r i st = Raised IndexError
     (st\<lparr>context_dict := AList.update ''page_num'' (PInt (int i)) (context_dict st),
         store := store st @ [store st ! (r ! i)]\<rparr>)"
  by (simp add: merge_body_def getPage_def list_getitem_def Let_def)

text \<open>
  Claim C3, as stated: for every input PDF with more pages than the mapping has entries,
  \<^verbatim>\<open>merge\<close> raises at the first page index past the mapping. It does not when there is
  no student: the loops never reach a page, and \<^verbatim>\<open>merge\<close> returns an empty writer.
\<close>

theorem merge_no_students_counterexample:
  "merge script_context [] [Mask EmptyPageMask] [0, 1] template_pdf =
   Returned \<lparr>context_dict = script_context, store = template_pdf, output_pdf = []\<rparr>"
  by (simp add: merge_def)

text \<open>
  Claim C3, amended: \<^verbatim>\<open>merge\<close> does not compare the page count with the mapping
  length. For every non-empty student list and every input PDF with more pages than
  the mapping has entries, \<^verbatim>\<open>merge\<close> never returns: it raises. When the mask pages of
  the first student are produced for the pages that the mapping covers, the exception
  is the IndexError of \<^verbatim>\<open>mapping[page_num]\<close> at the first page index past the mapping,
  for the first student; it reaches the caller, and the writer then holds the pages
  added before, one for each entry of the mapping.
\<close>

theorem merge_past_mapping:
  assumes "\<forall>a\<in>set input_pdf. a < length h"
    and "students \<noteq> []"
    and "length mapping < length input_pdf"
  shows "(\<forall>st'. merge ctx students mapping input_pdf h \<noteq> Returned st') \<and>
    ((\<forall>i<length mapping. \<not> isl (get_mask_page (mapping ! i) (context_at ctx (hd students) i))) \<longrightarrow>
     (\<exists>st'. merge ctx students mapping input_pdf h = Raised IndexError st' \<and>
        context_dict st' = context_at ctx (hd students) (length mapping) \<and>
        length (output_pdf st') = length mapping \<and>
        (\<forall>i<length mapping. document st' ! i =
           mergePage (h ! (input_pdf ! i))
             (projr (get_mask_page (mapping ! i) (context_at ctx (hd students) i))))))"
proof
  show "\<forall>st'. merge ctx students mapping input_pdf h \<noteq> Returned st'"
  proof (intro allI notI)
    fix st' assume "merge ctx students mapping input_pdf h = Returned st'"
    from merge_Returned_ok[OF assms(1) this] assms(2,3)
    have "page_ok mapping input_pdf (AList.update ''student'' (hd students) ctx) (length mapping)"
      by simp
    then show False by (simp add: page_ok_def)
  qed
next
  let ?m = "length mapping"
  let ?s = "hd students"
  let ?c = "AList.update ''student'' ?s ctx"
  let ?st0 = "\<lparr>context_dict = ?c, store = h, output_pdf = []\<rparr>"
  show "(\<forall>i<?m. \<not> isl (get_mask_page (mapping ! i) (context_at ctx ?s i))) \<longrightarrow>
     (\<exists>st'. merge ctx students mapping input_pdf h = Raised IndexError st' \<and>
        context_dict st' = context_at ctx ?s ?m \<and>
        length (output_pdf st') = ?m \<and>
        (\<forall>i<?m. document st' ! i =
           mergePage (h ! (input_pdf ! i))
             (projr (get_mask_page (mapping ! i) (context_at ctx ?s i)))))"
  proof
    assume masks: "\<forall>i<?m. \<not> isl (get_mask_page (mapping ! i) (context_at ctx ?s i))"
    let ?st1 = "?st0\<lparr>context_dict := (if [0 ..< ?m] = [] then context_dict ?st0
                   else AList.update ''page_num'' (PInt (int (last [0 ..< ?m]))) (context_dict ?st0)),
         store := store ?st0 @ map (new_page mapping input_pdf (store ?st0) (context_dict ?st0)) [0 ..< ?m],
         output_pdf := output_pdf ?st0 @ [length (store ?st0) ..< length (store ?st0) + length [0 ..< ?m]]\<rparr>"
    let ?st2 = "?st1\<lparr>context_dict := AList.update ''page_num'' (PInt (int ?m)) (context_dict ?st1),
         store := store ?st1 @ [store ?st1 ! (input_pdf ! ?m)]\<rparr>"
    have valid0: "\<forall>a\<in>set input_pdf. a < length (store ?st0)"
      using assms(1) by simp
    have ok0: "\<forall>i\<in>set [0 ..< ?m]. page_ok mapping input_pdf (context_dict ?st0) i"
      using masks assms(3) by (simp add: page_ok_context_at)
    have first: "pages_loop mapping input_pdf [0 ..< ?m] ?st0 = Returned ?st1"
      using valid0 ok0 by (rule pages_loop_ok)
    have body: "merge_body mapping input_pdf ?m ?st1 = Raised IndexError ?st2"
      using assms(3) by (intro merge_body_past_mapping) simp_all
    have split: "[0 ..< length input_pdf] = [0 ..< ?m] @ ?m # [Suc ?m ..< length input_pdf]"
      using assms(3) by (metis le0 upt_add_eq_append upt_conv_Cons le_add_diff_inverse less_imp_le_nat)
    have inner: "pages_loop mapping input_pdf [0 ..< length input_pdf] ?st0 = Raised IndexError ?st2"
      unfolding split pages_loop_append first using body by simp
    obtain s ss where students: "students = s # ss"
      using assms(2) by (cases students) auto
    have run: "merge ctx students mapping input_pdf h = Raised IndexError ?st2"
      using inner by (simp add: merge_def students)
    have ctx2: "context_dict ?st2 = context_at ctx ?s ?m"
      by (simp add: context_at_def)
    have len: "length (output_pdf ?st2) = ?m"
      by simp
    have pages: "document ?st2 ! i = mergePage (h ! (input_pdf ! i))
             (projr (get_mask_page (mapping ! i) (context_at ctx ?s i)))" if "i < ?m" for i
      using that by (simp add: document_def nth_append new_page_context_at)
    show "\<exists>st'. merge ctx students mapping input_pdf h = Raised IndexError st' \<and>
        context_dict st' = context_at ctx ?s ?m \<and>
        length (output_pdf st') = ?m \<and>
        (\<forall>i<?m. document st' ! i =
           mergePage (h ! (input_pdf ! i))
             (projr (get_mask_page (mapping ! i) (context_at ctx ?s i))))"
      using run ctx2 len pages by blast
  qed
qed

theorem merge_past_mapping_witness:
  "list_all (\<lambda>a. a < length template_pdf) [0, 1] \<and> script_students \<noteq> [] \<and>
   length [Mask EmptyPageMask] < length [0, 1::nat] \<and>
   list_all (\<lambda>i. \<not> isl (get_mask_page ([Mask EmptyPageMask] ! i)
              (context_at script_context (hd script_students) i)))
     [0 ..< length [Mask EmptyPageMask]] \<and>
   (\<forall>st'. merge script_context script_students [Mask EmptyPageMask] [0, 1] template_pdf \<noteq>
      Returned st') \<and>
   (\<exists>st'. merge script_context script_students [Mask EmptyPageMask] [0, 1] template_pdf =
        Raised IndexError st' \<and>
      context_dict st' =
        context_at script_context (hd script_students) (length [Mask EmptyPageMask]) \<and>
      length (output_pdf st') = length [Mask EmptyPageMask] \<and>
      (\<forall>i<length [Mask EmptyPageMask]. document st' ! i =
         mergePage (template_pdf ! ([0, 1] ! i))
           (projr (get_mask_page ([Mask EmptyPageMask] ! i)
              (context_at script_context (hd script_students) i)))))"
proof -
  have s: "script_students \<noteq> []"
    by (simp add: script_students_def)
  have len: "length [Mask EmptyPageMask] < length [0, 1::nat]"
    by simp
  have masks: "\<forall>i<length [Mask EmptyPageMask].
      \<not> isl (get_mask_page ([Mask EmptyPageMask] ! i)
              (context_at script_context (hd script_students) i))"
    by (simp add: eval_defs)
  then have masks_list: "list_all (\<lambda>i. \<not> isl (get_mask_page ([Mask EmptyPageMask] ! i)
              (context_at script_context (hd script_students) i)))
     [0 ..< length [Mask EmptyPageMask]]"
    by (simp add: list_all_iff)
  from merge_past_mapping[OF script_valid s len, of script_context] script_valid_list s len
    masks masks_list
  show ?thesis by blast
qed

section \<open>The input pages are not written\<close>

lemma extends_refl: "extends st st"
  by (simp add: extends_def)

lemma extends_context [simp]: "extends (st\<lparr>context_dict := c\<rparr>) st' = extends st st'"
  by (simp add: extends_def)

lemma extends_trans:
  assumes "extends a b" and "extends b c"
  shows "extends a c"
proof -
  obtain ys where ys: "store b = store a @ ys"
    using assms(1) by (metis extends_def append_take_drop_id)
  obtain zs where zs: "store c = store b @ zs"
    using assms(2) by (metis extends_def append_take_drop_id)
  obtain os where os: "output_pdf b = output_pdf a @ os"
    using assms(1) by (metis extends_def append_take_drop_id)
  obtain ps where ps: "output_pdf c = output_pdf b @ ps"
    using assms(2) by (metis extends_def append_take_drop_id)
  have o: "list_all (\<lambda>x. length (store a) \<le> x \<and> x < length (store b)) os" "distinct os"
    using assms(1) by (simp_all add: extends_def os)
  have p: "list_all (\<lambda>x. length (store b) \<le> x \<and> x < length (store c)) ps" "distinct ps"
    using assms(2) by (simp_all add: extends_def ps)
  have "x \<notin> set ps" if "x \<in> set os" for x
  proof
    assume "x \<in> set ps"
    with p(1) have "length (store b) \<le> x" by (simp add: list_all_iff)
    moreover from that o(1) have "x < length (store b)" by (simp add: list_all_iff)
    ultimately show False by simp
  qed
  then have "set os \<inter> set ps = {}"
    by auto
  moreover have "list_all (\<lambda>x. length (store a) \<le> x \<and> x < length (store c)) (os @ ps)"
    using o(1) p(1) by (auto simp: list_all_iff ys zs)
  ultimately show ?thesis
    using o(2) p(2) by (simp add: extends_def ys zs os ps)
qed

lemma merge_body_extends: "extends st (state_of (merge_body mapping r i st))"
  by (simp add: merge_body_def getPage_def list_getitem_def Let_def extends_def
      split: sum.splits)

lemma pages_loop_extends: "extends st (state_of (pages_loop mapping r pns st))"
proof (induction pns arbitrary: st)
  case Nil
  then show ?case by (simp add: extends_refl)
next
  case (Cons i pns)
  show ?case
  proof (cases "merge_body mapping r i st")
    case (Returned st1)
    with merge_body_extends[of st mapping r i] Cons.IH[of st1] show ?thesis
      by (auto intro: extends_trans)
  next
    case (Raised e st1)
    with merge_body_extends[of st mapping r i] show ?thesis by simp
  qed
qed

lemma students_loop_extends: "extends st (state_of (students_loop mapping r ss st))"
proof (induction ss arbitrary: st)
  case Nil
  then show ?case by (simp add: extends_refl)
next
  case (Cons s ss)
  let ?st0 = "st\<lparr>context_dict := AList.update ''student'' s (context_dict st)\<rparr>"
  have inner: "extends st (state_of (pages_loop mapping r [0 ..< length r] ?st0))"
    using pages_loop_extends[of ?st0 mapping r "[0 ..< length r]"] by simp
  show ?case
  proof (cases "pages_loop mapping r [0 ..< length r] ?st0")
    case (Returned st1)
    with inner Cons.IH[of st1] show ?thesis
      by (auto intro: extends_trans)
  next
    case (Raised e st1)
    with inner show ?thesis by simp
  qed
qed

text \<open>
  Claim C5: \<^verbatim>\<open>merge\<close> does not modify the pages of the input reader. Whether it
  returns or raises, every page object of the input, and every object that was in the
  store before, has its content unchanged in the final store, so each student's copies
  are made from the same unchanged input pages; the pages in the output writer are
  distinct objects allocated by \<^verbatim>\<open>merge\<close>, the copies, and only those are written by
  the merging of a mask.
\<close>

theorem merge_frame:
  assumes "\<forall>a\<in>set input_pdf. a < length h"
  shows "map (\<lambda>a. store (state_of (merge ctx students mapping input_pdf h)) ! a) input_pdf =
       map (\<lambda>a. h ! a) input_pdf \<and>
     take (length h) (store (state_of (merge ctx students mapping input_pdf h))) = h \<and>
     (\<forall>a\<in>set (output_pdf (state_of (merge ctx students mapping input_pdf h))).
        length h \<le> a \<and> a < length (store (state_of (merge ctx students mapping input_pdf h)))) \<and>
     distinct (output_pdf (state_of (merge ctx students mapping input_pdf h)))"
proof -
  let ?st' = "state_of (merge ctx students mapping input_pdf h)"
  have ext: "extends \<lparr>context_dict = ctx, store = h, output_pdf = []\<rparr> ?st'"
    unfolding merge_def by (rule students_loop_extends)
  then have take: "take (length h) (store ?st') = h"
    by (simp add: extends_def)
  have "store ?st' ! a = h ! a" if "a < length h" for a
    using that take by (metis nth_take)
  then have "map (\<lambda>a. store ?st' ! a) input_pdf = map (\<lambda>a. h ! a) input_pdf"
    using assms by simp
  with ext take show ?thesis
    by (simp add: extends_def list_all_iff)
qed

theorem merge_frame_witness:
  "list_all (\<lambda>a. a < length template_pdf) [0, 1] \<and>
   map (\<lambda>a. store (state_of (merge script_context script_students script_mapping [0, 1]
       template_pdf)) ! a) [0, 1] = map (\<lambda>a. template_pdf ! a) [0, 1] \<and>
   take (length template_pdf) (store (state_of (merge script_context script_students
       script_mapping [0, 1] template_pdf))) = template_pdf \<and>
   list_all (\<lambda>a. length template_pdf \<le> a \<and>
       a < length (store (state_of (merge script_context script_students script_mapping [0, 1]
         template_pdf))))
     (output_pdf (state_of (merge script_context script_students script_mapping [0, 1]
       template_pdf))) \<and>
   distinct (output_pdf (state_of (merge script_context script_students script_mapping [0, 1]
       template_pdf)))"
  using merge_frame[OF script_valid, of script_context script_students script_mapping]
    script_valid_list by (simp add: list_all_iff)

end
